theory Spec2Isabelle
  imports Main "HOL-Library.Char_ord" "HOL-Library.List_Lexorder" "HOL-Library.Sublist"
    "HOL-Library.Multiset"
begin

section \<open>The data of serve-index\<close>

text \<open>
  The middleware of \<^verbatim>\<open>src/index.ts\<close> is written in continuation-passing style over
  Node's file system. The embedding keeps the order of its calls: every function returns
  the list of the events it causes, in the order the source causes them. An event is a
  file-system call that was issued, a call of the HTML renderer, the response that was
  written, a call of \<^verbatim>\<open>next\<close>, or an exception that leaves the handler.

  Strings are lists of 8-bit characters, the UTF-8 bytes of the JavaScript string, so
  the byte length of a body is its length; \<^verbatim>\<open>err.code\<close> is kept as the string Node
  gives it.
\<close>

record Stats =
  isDirectory :: bool
  size_bytes :: nat
  mtime :: nat

text \<open>\<^verbatim>\<open>TemplateLocalFilter\<close>: \<^verbatim>\<open>{ name, stat }\<close>, where \<^verbatim>\<open>stat\<close> may be null.\<close>

record TemplateLocalFilter =
  name :: string
  stat_of :: "Stats option"

record TemplateLocal =
  directory :: string
  displayIcons :: bool
  fileList :: "TemplateLocalFilter list"
  path_of :: string
  style :: string
  viewName :: string

text \<open>
  An error handed to \<^verbatim>\<open>next\<close>: \<^verbatim>\<open>createError(n)\<close>, or the error object of a failed
  file-system call with its \<^verbatim>\<open>code\<close> and the \<^verbatim>\<open>status\<close> the handler may have set on it.
\<close>

datatype error = HttpError nat | ErrnoException string "nat option"

datatype event =
    FsStat string
  | FsReaddir string
  | FsReadFile string
  | Render TemplateLocal
  | ResEnd nat "(string \<times> string) list" string
  | Next "error option"
  | Throw string

text \<open>
  The file system as the handler reads it: each call answers with \<^verbatim>\<open>Inl code\<close> (the
  \<^verbatim>\<open>err.code\<close> of the failure) or with its result.
\<close>

record filesystem =
  fs_stat :: "string \<Rightarrow> string + Stats"
  fs_readdir :: "string \<Rightarrow> string + string list"
  fs_readFile :: "string \<Rightarrow> string + string"

text \<open>
  What the source imports and does not define: \<^verbatim>\<open>node:path\<close> (\<^verbatim>\<open>sep\<close>,
  \<^verbatim>\<open>normalize\<close>, \<^verbatim>\<open>join\<close>, \<^verbatim>\<open>resolve\<close>), \<^verbatim>\<open>__dirname\<close>, the built-ins
  \<^verbatim>\<open>decodeURIComponent\<close> (\<^verbatim>\<open>None\<close> when it throws), \<^verbatim>\<open>toLocaleLowerCase\<close> and
  \<^verbatim>\<open>localeCompare\<close>, the \<^verbatim>\<open>accepts\<close> package (\<^verbatim>\<open>accepts(req).type(types)\<close> as a function
  of the Accept header and the offered list, \<^verbatim>\<open>None\<close> for \<^verbatim>\<open>false\<close>), and the text that
  \<^verbatim>\<open>createHtmlRender\<close> builds from a template and the locals (\<^verbatim>\<open>escape-html\<close>,
  \<^verbatim>\<open>mime-types\<close>, the icon files and the dates of the locale go into it). They are
  parameters of the model: every theorem below holds for every host, unless it states
  what it needs of one.
\<close>

record host =
  sep :: string
  path_normalize :: "string \<Rightarrow> string"
  path_join :: "string \<Rightarrow> string \<Rightarrow> string"
  path_resolve :: "string \<Rightarrow> string"
  dirname :: string
  decodeURIComponent :: "string \<Rightarrow> string option"
  toLocaleLowerCase :: "string \<Rightarrow> string"
  localeCompare :: "string \<Rightarrow> string \<Rightarrow> int"
  accepts_type :: "string option \<Rightarrow> string list \<Rightarrow> string option"
  replaceTokens :: "string \<Rightarrow> TemplateLocal \<Rightarrow> string"

text \<open>
  The request, as far as the handler reads it: \<^verbatim>\<open>req.method\<close>, the pathname that
  \<^verbatim>\<open>parseUrl(req)\<close> and \<^verbatim>\<open>parseUrl.original(req)\<close> find (\<^verbatim>\<open>None\<close> when there is none),
  and the Accept header.
\<close>

record request =
  req_method :: string
  req_pathname :: "string option"
  req_originalPathname :: "string option"
  req_accept :: "string option"

datatype template = TemplatePath string | TemplateFn "TemplateLocal \<Rightarrow> error + string"

text \<open>
  \<^verbatim>\<open>ServeIndexOptions\<close>. The filter is called as \<^verbatim>\<open>filter(filename, index, list, path)\<close>
  and is taken to be a pure predicate.
\<close>

record ServeIndexOptions =
  filter_opt :: "(string \<Rightarrow> nat \<Rightarrow> string list \<Rightarrow> string \<Rightarrow> bool) option"
  hidden :: bool
  icons :: bool
  stylesheet :: "string option"
  template_opt :: "template option"
  view :: "string option"

section \<open>The functions of \<^verbatim>\<open>src/index.ts\<close>\<close>

definition defaultTemplate :: "host \<Rightarrow> string" where
  "defaultTemplate h = path_join h (path_join h (dirname h) ''public'') ''directory.html''"

definition defaultStylesheet :: "host \<Rightarrow> string" where
  "defaultStylesheet h = path_join h (path_join h (dirname h) ''public'') ''style.css''"

definition mediaTypes :: "string list" where
  "mediaTypes = [''text/html'', ''text/plain'', ''application/json'']"

definition mediaType :: "(string \<times> string) list" where
  "mediaType = [(''text/html'', ''html''), (''text/plain'', ''plain''),
     (''application/json'', ''json'')]"

text \<open>\<^verbatim>\<open>a || b\<close> on strings: the empty string and \<^verbatim>\<open>undefined\<close> are falsy.\<close>

definition or_default :: "string option \<Rightarrow> string \<Rightarrow> string" where
  "or_default v d = (case v of None \<Rightarrow> d | Some s \<Rightarrow> if s = [] then d else s)"

text \<open>\<^verbatim>\<open>getRequestedDir\<close>: the decoded pathname, or null when decoding throws.\<close>

definition getRequestedDir :: "host \<Rightarrow> request \<Rightarrow> string option" where
  "getRequestedDir h req =
     decodeURIComponent h (case req_pathname req of None \<Rightarrow> [] | Some p \<Rightarrow> p)"

text \<open>\<^verbatim>\<open>removeHidden\<close>: keeps the names whose first character is not a dot.\<close>

definition removeHidden :: "string list \<Rightarrow> string list" where
  "removeHidden files =
     filter (\<lambda>file. case file of [] \<Rightarrow> True | c # _ \<Rightarrow> c \<noteq> CHR ''.'') files"

text \<open>
  \<^verbatim>\<open>Array.prototype.filter\<close> with the callback's index and the array it runs over.
\<close>

definition array_filter :: "(string \<Rightarrow> nat \<Rightarrow> string list \<Rightarrow> bool) \<Rightarrow> string list \<Rightarrow> string list" where
  "array_filter p files =
     map fst (filter (\<lambda>(f, i). p f i files) (zip files [0 ..< length files]))"

text \<open>
  \<^verbatim>\<open>Array.prototype.sort\<close> with a comparator: the sort is stable, and an element goes
  before the first one it does not compare greater than.
\<close>

fun insort_by :: "('a \<Rightarrow> 'a \<Rightarrow> int) \<Rightarrow> 'a \<Rightarrow> 'a list \<Rightarrow> 'a list" where
  "insort_by cmp x [] = [x]"
| "insort_by cmp x (y # ys) =
     (if cmp x y \<le> 0 then x # y # ys else y # insort_by cmp x ys)"

definition array_sort :: "('a \<Rightarrow> 'a \<Rightarrow> int) \<Rightarrow> 'a list \<Rightarrow> 'a list" where
  "array_sort cmp xs = foldr (insort_by cmp) xs []"

text \<open>\<^verbatim>\<open>Number(x.stat && x.stat.isDirectory())\<close>: 1 for a directory, 0 otherwise.\<close>

definition dir_number :: "TemplateLocalFilter \<Rightarrow> int" where
  "dir_number x = (case stat_of x of None \<Rightarrow> 0 | Some s \<Rightarrow> if isDirectory s then 1 else 0)"

text \<open>\<^verbatim>\<open>fileSort\<close>: the comparator of the display sort.\<close>

definition fileSort :: "host \<Rightarrow> TemplateLocalFilter \<Rightarrow> TemplateLocalFilter \<Rightarrow> int" where
  "fileSort h a b =
     (if name a = ''..'' \<or> name b = ''..''
      then (if name a = name b then 0 else if name a = ''..'' then - 1 else 1)
      else (let d = dir_number b - dir_number a
            in if d \<noteq> 0 then d
               else localeCompare h (toLocaleLowerCase h (name a))
                      (toLocaleLowerCase h (name b))))"

text \<open>
  \<^verbatim>\<open>stat\<close>: one \<^verbatim>\<open>fs.stat\<close> per file through a \<^verbatim>\<open>Batch\<close>. The batch starts the
  lookups in the order of the list, at most ten at a time, stores each result at the
  index of its file, and calls back once: with the error of the first lookup that fails
  with anything but ENOENT, or with all results. The model completes each lookup before
  it starts the next one, so the first failure in time is the first in the list.
\<close>

fun stat :: "host \<Rightarrow> filesystem \<Rightarrow> string \<Rightarrow> string list
    \<Rightarrow> event list \<times> (error + TemplateLocalFilter list)" where
  "stat h fs dir [] = ([], Inr [])"
| "stat h fs dir (file # files) =
     (let p = path_join h dir file in
      case fs_stat fs p of
        Inl code \<Rightarrow>
          if code \<noteq> ''ENOENT'' then ([FsStat p], Inl (ErrnoException code None))
          else (case stat h fs dir files of
                  (evs, Inl e) \<Rightarrow> (FsStat p # evs, Inl e)
                | (evs, Inr done) \<Rightarrow>
                    (FsStat p # evs, Inr (\<lparr>name = file, stat_of = None\<rparr> # done)))
      | Inr st \<Rightarrow>
          (case stat h fs dir files of
             (evs, Inl e) \<Rightarrow> (FsStat p # evs, Inl e)
           | (evs, Inr done) \<Rightarrow>
               (FsStat p # evs, Inr (\<lparr>name = file, stat_of = Some st\<rparr> # done))))"

text \<open>\<^verbatim>\<open>Array.prototype.join\<close>.\<close>

fun array_join :: "string \<Rightarrow> string list \<Rightarrow> string" where
  "array_join s [] = []"
| "array_join s [x] = x"
| "array_join s (x # y # ys) = x @ s @ array_join s (y # ys)"

text \<open>
  \<^verbatim>\<open>JSON.stringify\<close> on an array of strings: the quoted elements, separated by commas,
  in brackets. A string is quoted as ECMAScript's QuoteJSONString does for characters
  below 256: the two-character escapes, \<^verbatim>\<open>\u00XX\<close> for the other control
  characters, every other character as it is.
\<close>

definition hex_digit :: "nat \<Rightarrow> char" where
  "hex_digit n = (''0123456789abcdef'') ! (n mod 16)"

definition JSON_quote_char :: "char \<Rightarrow> string" where
  "JSON_quote_char c =
     (if c = CHR 0x08 then [CHR 0x5C, CHR ''b'']
      else if c = CHR 0x09 then [CHR 0x5C, CHR ''t'']
      else if c = CHR 0x0A then [CHR 0x5C, CHR ''n'']
      else if c = CHR 0x0C then [CHR 0x5C, CHR ''f'']
      else if c = CHR 0x0D then [CHR 0x5C, CHR ''r'']
      else if c = CHR 0x22 then [CHR 0x5C, CHR 0x22]
      else if c = CHR 0x5C then [CHR 0x5C, CHR 0x5C]
      else if (of_char c :: nat) < 32
        then [CHR 0x5C, CHR ''u'', CHR ''0'', CHR ''0'', hex_digit (of_char c div 16), hex_digit (of_char c)]
      else [c])"

definition JSON_quote :: "string \<Rightarrow> string" where
  "JSON_quote s = [CHR 0x22] @ concat (map JSON_quote_char s) @ [CHR 0x22]"

definition JSON_stringify :: "string list \<Rightarrow> string" where
  "JSON_stringify xs = ''['' @ array_join '','' (map JSON_quote xs) @ '']''"

text \<open>The decimal digits of \<^verbatim>\<open>Buffer.byteLength(body)\<close> in the Content-Length header.\<close>

fun decimal :: "nat \<Rightarrow> string" where
  "decimal n = (if n < 10 then [hex_digit n] else decimal (n div 10) @ [hex_digit (n mod 10)])"

text \<open>\<^verbatim>\<open>send\<close>: three headers, then the body; the status code is left at 200.\<close>

definition send :: "string \<Rightarrow> string \<Rightarrow> event" where
  "send type body =
     ResEnd 200
       [(''X-Content-Type-Options'', ''nosniff''),
        (''Content-Type'', type @ ''; charset=utf-8''),
        (''Content-Length'', decimal (length body))]
       body"

text \<open>
  \<^verbatim>\<open>createHtmlRender\<close>: reads the template and replaces its tokens; a failed read goes
  to the callback.
\<close>

definition createHtmlRender :: "host \<Rightarrow> filesystem \<Rightarrow> string \<Rightarrow> TemplateLocal
    \<Rightarrow> event list \<times> (error + string)" where
  "createHtmlRender h fs tmpl locals =
     (case fs_readFile fs tmpl of
        Inl code \<Rightarrow> ([FsReadFile tmpl], Inl (ErrnoException code None))
      | Inr str \<Rightarrow> ([FsReadFile tmpl], Inr (replaceTokens h str locals)))"

text \<open>\<^verbatim>\<open>serveIndex.html\<close>\<close>

definition serveIndex_html :: "host \<Rightarrow> filesystem \<Rightarrow> string list \<Rightarrow> string \<Rightarrow> bool \<Rightarrow> bool
    \<Rightarrow> string \<Rightarrow> string \<Rightarrow> template \<Rightarrow> string \<Rightarrow> event list" where
  "serveIndex_html h fs files dir showUp' icns path vw tmpl stylesheet' =
     (let render = (case tmpl of
                      TemplatePath t \<Rightarrow> createHtmlRender h fs t
                    | TemplateFn f \<Rightarrow> (\<lambda>locals. ([], f locals)));
          files' = (if showUp' then ''..'' # files else files)
      in case stat h fs path files' of
           (evs, Inl err) \<Rightarrow> evs @ [Next (Some err)]
         | (evs, Inr fileList') \<Rightarrow>
             (let sorted = array_sort (fileSort h) fileList' in
              evs @ FsReadFile stylesheet' #
                (case fs_readFile fs stylesheet' of
                   Inl code \<Rightarrow> [Next (Some (ErrnoException code None))]
                 | Inr style' \<Rightarrow>
                     (let locals = \<lparr>directory = dir, displayIcons = icns, fileList = sorted,
                                    path_of = path, style = style', viewName = vw\<rparr>
                      in Render locals #
                           (case render locals of
                              (revs, Inl err) \<Rightarrow> revs @ [Next (Some err)]
                            | (revs, Inr body) \<Rightarrow> revs @ [send ''text/html'' body])))))"

text \<open>\<^verbatim>\<open>serveIndex.json\<close>\<close>

definition serveIndex_json :: "host \<Rightarrow> filesystem \<Rightarrow> string list \<Rightarrow> string \<Rightarrow> event list" where
  "serveIndex_json h fs files path =
     (case stat h fs path files of
        (evs, Inl err) \<Rightarrow> evs @ [Next (Some err)]
      | (evs, Inr fileList') \<Rightarrow>
          evs @ [send ''application/json''
                   (JSON_stringify (map name (array_sort (fileSort h) fileList')))])"

text \<open>\<^verbatim>\<open>serveIndex.plain\<close>\<close>

definition serveIndex_plain :: "host \<Rightarrow> filesystem \<Rightarrow> string list \<Rightarrow> string \<Rightarrow> event list" where
  "serveIndex_plain h fs files path =
     (case stat h fs path files of
        (evs, Inl err) \<Rightarrow> evs @ [Next (Some err)]
      | (evs, Inr fileList') \<Rightarrow>
          evs @ [send ''text/plain''
                   (array_join [CHR 0x0A] (map name (array_sort (fileSort h) fileList'))
                      @ [CHR 0x0A])])"

text \<open>
  The names the callback of \<^verbatim>\<open>fs.readdir\<close> lists: the hidden names go unless
  \<^verbatim>\<open>hidden\<close> is set, the names the filter refuses go, the rest is sorted by code unit.
\<close>

definition listed_files :: "ServeIndexOptions \<Rightarrow> string \<Rightarrow> string list \<Rightarrow> string list" where
  "listed_files opts path files0 =
     (let files1 = (if \<not> hidden opts then removeHidden files0 else files0);
          files2 = (case filter_opt opts of
                      None \<Rightarrow> files1
                    | Some f \<Rightarrow>
                        array_filter (\<lambda>filename index list. f filename index list path) files1)
      in sort files2)"

text \<open>
  The callback of \<^verbatim>\<open>fs.readdir\<close> in \<^verbatim>\<open>serveIndex\<close>, from the list of names on:
  the names are listed, the media type is negotiated and the renderer of that type runs.
\<close>

definition readdir_callback :: "host \<Rightarrow> filesystem \<Rightarrow> ServeIndexOptions \<Rightarrow> request \<Rightarrow> string
    \<Rightarrow> bool \<Rightarrow> string \<Rightarrow> string list \<Rightarrow> event list" where
  "readdir_callback h fs opts req originalDir showUp' path files0 =
     (let files = listed_files opts path files0
      in case accepts_type h (req_accept req) mediaTypes of
           None \<Rightarrow> [Next (Some (HttpError 406))]
         | Some type \<Rightarrow>
             if type = [] then [Next (Some (HttpError 406))]
             else (case map_of mediaType type of
                     None \<Rightarrow> [Throw ''TypeError'']
                   | Some m \<Rightarrow>
                       if m = ''html'' then
                         serveIndex_html h fs files originalDir showUp' (icons opts) path
                           (or_default (view opts) ''tiles'')
                           (case template_opt opts of
                              None \<Rightarrow> TemplatePath (defaultTemplate h)
                            | Some (TemplatePath t) \<Rightarrow>
                                TemplatePath (if t = [] then defaultTemplate h else t)
                            | Some (TemplateFn f) \<Rightarrow> TemplateFn f)
                           (or_default (stylesheet opts) (defaultStylesheet h))
                       else if m = ''json'' then serveIndex_json h fs files path
                       else serveIndex_plain h fs files path))"

text \<open>The callback of the first \<^verbatim>\<open>fs.stat\<close> in \<^verbatim>\<open>serveIndex\<close>.\<close>

definition stat_callback :: "host \<Rightarrow> filesystem \<Rightarrow> ServeIndexOptions \<Rightarrow> request \<Rightarrow> string
    \<Rightarrow> bool \<Rightarrow> string \<Rightarrow> string + Stats \<Rightarrow> event list" where
  "stat_callback h fs opts req originalDir showUp' path r =
     (case r of
        Inl code \<Rightarrow>
          if code = ''ENOENT'' then [Next None]
          else [Next (Some (ErrnoException code
                  (Some (if code = ''ENAMETOOLONG'' then 414 else 500))))]
      | Inr st \<Rightarrow>
          if \<not> isDirectory st then [Next None]
          else FsReaddir path #
                 (case fs_readdir fs path of
                    Inl code \<Rightarrow> [Next (Some (ErrnoException code None))]
                  | Inr files \<Rightarrow> readdir_callback h fs opts req originalDir showUp' path files))"

text \<open>\<^verbatim>\<open>rootPath\<close>: the root, resolved, with the separator appended, normalized.\<close>

definition rootPath :: "host \<Rightarrow> string \<Rightarrow> string" where
  "rootPath h root = path_normalize h (path_resolve h root @ sep h)"

text \<open>The \<^verbatim>\<open>path\<close> of the handler: the decoded directory joined to the root path.\<close>

definition joined_path :: "host \<Rightarrow> string \<Rightarrow> string \<Rightarrow> string" where
  "joined_path h root dir = path_normalize h (path_join h (rootPath h root) dir)"

text \<open>\<^verbatim>\<open>showUp\<close>: whether the listing gets the entry \<^verbatim>\<open>..\<close>.\<close>

definition showUp :: "host \<Rightarrow> string \<Rightarrow> string \<Rightarrow> bool" where
  "showUp h root path = (path_normalize h (path_resolve h path @ sep h) \<noteq> rootPath h root)"

text \<open>
  \<^verbatim>\<open>serveIndex(root, options)\<close> applied to a request. The second
  \<^verbatim>\<open>decodeURIComponent\<close>, of the original URL's pathname, stands outside every
  \<^verbatim>\<open>try\<close>: when it throws, the exception leaves the handler.
\<close>

definition serveIndex :: "host \<Rightarrow> filesystem \<Rightarrow> string \<Rightarrow> ServeIndexOptions \<Rightarrow> request
    \<Rightarrow> event list" where
  "serveIndex h fs root opts req =
     (if root = [] then [Throw ''TypeError'']
      else if req_method req \<noteq> ''GET'' \<and> req_method req \<noteq> ''HEAD'' then
        [ResEnd (if ''OPTIONS'' = req_method req then 200 else 405)
           [(''Allow'', ''GET, HEAD, OPTIONS''), (''Content-Length'', ''0'')] []]
      else (case getRequestedDir h req of
              None \<Rightarrow> [Next (Some (HttpError 400))]
            | Some dir \<Rightarrow>
                (case decodeURIComponent h
                        (case req_originalPathname req of None \<Rightarrow> [] | Some p \<Rightarrow> p) of
                   None \<Rightarrow> [Throw ''URIError'']
                 | Some originalDir \<Rightarrow>
                     (let path = joined_path h root dir in
                      if CHR 0x00 \<in> set path then [Next (Some (HttpError 400))]
                      else if take (length (rootPath h root)) (path @ sep h) \<noteq> rootPath h root
                        then [Next (Some (HttpError 403))]
                      else FsStat path #
                             stat_callback h fs opts req originalDir (showUp h root path) path
                               (fs_stat fs path)))))"

section \<open>A POSIX host\<close>

text \<open>
  A host to run the model on: Node's \<^verbatim>\<open>path.posix\<close> at the level of path segments,
  percent-decoding with the UTF-8 check of ECMAScript's Decode (a decoded character
  beyond ASCII stays as its UTF-8 bytes), and stand-ins for the locale and for the
  \<^verbatim>\<open>accepts\<close> package that are described where they are defined.
\<close>

text \<open>\<^verbatim>\<open>String.prototype.split\<close> at one character.\<close>

fun split_at :: "char \<Rightarrow> string \<Rightarrow> string list" where
  "split_at c [] = [[]]"
| "split_at c (x # xs) =
     (if x = c then [] # split_at c xs
      else (case split_at c xs of [] \<Rightarrow> [[x]] | s # ss \<Rightarrow> (x # s) # ss))"

text \<open>
  \<^verbatim>\<open>normalizeString\<close>: empty segments and \<^verbatim>\<open>.\<close> go; \<^verbatim>\<open>..\<close> removes the segment
  before it, unless there is none or it is \<^verbatim>\<open>..\<close> itself: then \<^verbatim>\<open>..\<close> stays when the
  path may rise above its start, and goes otherwise.
\<close>

fun normalizeString :: "bool \<Rightarrow> string list \<Rightarrow> string list \<Rightarrow> string list" where
  "normalizeString allowAboveRoot res [] = res"
| "normalizeString allowAboveRoot res (s # ss) =
     (if s = [] \<or> s = ''.'' then normalizeString allowAboveRoot res ss
      else if s = ''..'' then
        (if res \<noteq> [] \<and> last res \<noteq> ''..'' then normalizeString allowAboveRoot (butlast res) ss
         else if allowAboveRoot then normalizeString allowAboveRoot (res @ [''..'']) ss
         else normalizeString allowAboveRoot res ss)
      else normalizeString allowAboveRoot (res @ [s]) ss)"

definition posix_normalize :: "string \<Rightarrow> string" where
  "posix_normalize p =
     (if p = [] then ''.''
      else (let isAbsolute = (hd p = CHR ''/'');
                trailingSeparator = (last p = CHR ''/'');
                body = array_join ''/'' (normalizeString (\<not> isAbsolute) [] (split_at CHR ''/'' p))
            in if body = [] then (if isAbsolute then ''/'' else if trailingSeparator then ''./'' else ''.'')
               else (if isAbsolute then ''/'' else []) @ body
                      @ (if trailingSeparator then ''/'' else [])))"

definition posix_join :: "string \<Rightarrow> string \<Rightarrow> string" where
  "posix_join a b =
     (if a = [] \<and> b = [] then ''.''
      else posix_normalize (array_join ''/'' (filter (\<lambda>s. s \<noteq> []) [a, b])))"

text \<open>\<^verbatim>\<open>resolve\<close> of one path, in a process whose working directory is \<^verbatim>\<open>cwd\<close>.\<close>

definition posix_resolve :: "string \<Rightarrow> string \<Rightarrow> string" where
  "posix_resolve cwd p =
     (let full = (if p = [] then cwd else if hd p = CHR ''/'' then p else cwd @ ''/'' @ p)
      in ''/'' @ array_join ''/'' (normalizeString False [] (split_at CHR ''/'' full)))"

definition hex_value :: "char \<Rightarrow> nat option" where
  "hex_value c =
     (let n = (of_char c :: nat) in
      if 48 \<le> n \<and> n \<le> 57 then Some (n - 48)
      else if 65 \<le> n \<and> n \<le> 70 then Some (n - 55)
      else if 97 \<le> n \<and> n \<le> 102 then Some (n - 87)
      else None)"

text \<open>
  The escapes of a string: each character with a mark that tells whether it was written
  as \<^verbatim>\<open>%XX\<close>; \<^verbatim>\<open>None\<close> when a percent sign has no two hexadecimal digits after it.
\<close>

fun unescape :: "string \<Rightarrow> (bool \<times> nat) list option" where
  "unescape [] = Some []"
| "unescape (c # cs) =
     (if c \<noteq> CHR ''%'' then map_option ((#) (False, of_char c)) (unescape cs)
      else (case cs of
              h1 # h2 # rest \<Rightarrow>
                (case (hex_value h1, hex_value h2) of
                   (Some a, Some b) \<Rightarrow> map_option ((#) (True, 16 * a + b)) (unescape rest)
                 | _ \<Rightarrow> None)
            | _ \<Rightarrow> None))"

definition continuation :: "nat \<Rightarrow> nat \<Rightarrow> (bool \<times> nat) \<Rightarrow> bool" where
  "continuation lo hi t = (fst t \<and> lo \<le> snd t \<and> snd t \<le> hi)"

text \<open>
  An escaped byte from 128 on starts a UTF-8 sequence, and the escapes after it have to
  complete a well-formed one.
\<close>

fun utf8_escapes :: "(bool \<times> nat) list \<Rightarrow> bool" where
  "utf8_escapes [] = True"
| "utf8_escapes ((esc, b) # ts) =
     (if \<not> esc \<or> b < 128 then utf8_escapes ts
      else if 194 \<le> b \<and> b \<le> 223 then
        (case ts of
           t1 # r \<Rightarrow> continuation 128 191 t1 \<and> utf8_escapes r
         | _ \<Rightarrow> False)
      else if 224 \<le> b \<and> b \<le> 239 then
        (case ts of
           t1 # t2 # r \<Rightarrow>
             continuation (if b = 224 then 160 else 128) (if b = 237 then 159 else 191) t1
             \<and> continuation 128 191 t2 \<and> utf8_escapes r
         | _ \<Rightarrow> False)
      else if 240 \<le> b \<and> b \<le> 244 then
        (case ts of
           t1 # t2 # t3 # r \<Rightarrow>
             continuation (if b = 240 then 144 else 128) (if b = 244 then 143 else 191) t1
             \<and> continuation 128 191 t2 \<and> continuation 128 191 t3 \<and> utf8_escapes r
         | _ \<Rightarrow> False)
      else False)"

definition percent_decode :: "string \<Rightarrow> string option" where
  "percent_decode s =
     (case unescape s of
        None \<Rightarrow> None
      | Some ts \<Rightarrow> if utf8_escapes ts then Some (map (\<lambda>t. char_of (snd t)) ts) else None)"

text \<open>The stand-in for the locale: ASCII letters in lower case, strings in code-unit order.\<close>

definition ascii_lower :: "string \<Rightarrow> string" where
  "ascii_lower s =
     map (\<lambda>c. if 65 \<le> (of_char c :: nat) \<and> (of_char c :: nat) \<le> 90
               then char_of ((of_char c :: nat) + 32) else c) s"

definition code_unit_compare :: "string \<Rightarrow> string \<Rightarrow> int" where
  "code_unit_compare a b = (if a < b then - 1 else if a = b then 0 else 1)"

text \<open>
  The stand-in for \<^verbatim>\<open>accepts(req).type(types)\<close>, right for a request without an Accept
  header (the first offered type), for the header \<^verbatim>\<open>*/*\<close> (the first offered type) and
  for a header that is one media type without parameters (that type when it is offered,
  \<^verbatim>\<open>false\<close> otherwise). It reads no other header.
\<close>

definition accepts_single :: "string option \<Rightarrow> string list \<Rightarrow> string option" where
  "accepts_single header types =
     (case header of
        None \<Rightarrow> (case types of [] \<Rightarrow> None | t # _ \<Rightarrow> Some t)
      | Some a \<Rightarrow>
          if a = ''*/*'' then (case types of [] \<Rightarrow> None | t # _ \<Rightarrow> Some t)
          else if a \<in> set types then Some a else None)"

text \<open>
  The host: the working directory is \<^verbatim>\<open>/\<close>, the module lies in \<^verbatim>\<open>/app\<close>. Its
  \<^verbatim>\<open>replaceTokens\<close> leaves the template as it is, which is what the replacement does to
  a template without tokens.
\<close>

definition posix_host :: host where
  "posix_host =
     \<lparr>sep = ''/'',
      path_normalize = posix_normalize,
      path_join = posix_join,
      path_resolve = posix_resolve ''/'',
      dirname = ''/app'',
      decodeURIComponent = percent_decode,
      toLocaleLowerCase = ascii_lower,
      localeCompare = code_unit_compare,
      accepts_type = accepts_single,
      replaceTokens = (\<lambda>str locals. str)\<rparr>"

section \<open>A file system and requests to run the handler on\<close>

definition dir_stats :: Stats where
  "dir_stats = \<lparr>isDirectory = True, size_bytes = 4096, mtime = 0\<rparr>"

definition file_stats :: Stats where
  "file_stats = \<lparr>isDirectory = False, size_bytes = 12, mtime = 0\<rparr>"

text \<open>
  The root \<^verbatim>\<open>/srv/www\<close> holds \<^verbatim>\<open>index.html\<close> and the directories \<^verbatim>\<open>docs\<close> and
  \<^verbatim>\<open>private\<close>. In \<^verbatim>\<open>docs\<close>, \<^verbatim>\<open>gone.txt\<close> is listed and no longer there; in
  \<^verbatim>\<open>private\<close>, \<^verbatim>\<open>secret\<close> may not be looked up; \<^verbatim>\<open>locked\<close> may not be looked up
  either, and a name of more than 31 characters is too long.
\<close>

definition demo_fs :: filesystem where
  "demo_fs =
     \<lparr>fs_stat = (\<lambda>p.
        if p \<in> set [''/srv/www'', ''/srv/www/'', ''/srv/www/docs'', ''/srv/www/docs/'',
                     ''/srv/www/docs/A'', ''/srv/www/private'', ''/srv/www/private/'']
          then Inr dir_stats
        else if p \<in> set [''/srv/www/docs/b.txt'', ''/srv/www/docs/.hidden'',
                          ''/srv/www/index.html'']
          then Inr file_stats
        else if p \<in> set [''/srv/www/locked'', ''/srv/www/private/secret'']
          then Inl ''EACCES''
        else if list_ex (\<lambda>s. 31 < length s) (split_at CHR ''/'' p) then Inl ''ENAMETOOLONG''
        else Inl ''ENOENT''),
      fs_readdir = (\<lambda>p.
        if p \<in> set [''/srv/www'', ''/srv/www/'']
          then Inr [''index.html'', ''docs'', ''private'']
        else if p \<in> set [''/srv/www/docs'', ''/srv/www/docs/'']
          then Inr [''b.txt'', ''.hidden'', ''A'', ''gone.txt'']
        else if p \<in> set [''/srv/www/private'', ''/srv/www/private/''] then Inr [''secret'']
        else Inl ''ENOENT''),
      fs_readFile = (\<lambda>p.
        if p = ''/app/public/style.css'' then Inr ''body {}''
        else if p = ''/app/public/directory.html'' then Inr ''<ul></ul>''
        else Inl ''ENOENT'')\<rparr>"

definition default_options :: ServeIndexOptions where
  "default_options =
     \<lparr>filter_opt = None, hidden = False, icons = False, stylesheet = None,
      template_opt = None, view = None\<rparr>"

text \<open>A request of the given method for a URL path, with an Accept header or without.\<close>

definition request_for :: "string \<Rightarrow> string \<Rightarrow> string option \<Rightarrow> request" where
  "request_for m p a =
     \<lparr>req_method = m, req_pathname = Some p, req_originalPathname = Some p, req_accept = a\<rparr>"

text \<open>A GET request whose original URL does not decode, as a mount path with a bare percent sign gives it.\<close>

definition mounted_request :: "string \<Rightarrow> string \<Rightarrow> request" where
  "mounted_request p original =
     \<lparr>req_method = ''GET'', req_pathname = Some p, req_originalPathname = Some original,
      req_accept = None\<rparr>"

text \<open>
  An entry whose metadata marks it as a directory; an entry without metadata is none.
\<close>

definition is_directory_entry :: "TemplateLocalFilter \<Rightarrow> bool" where
  "is_directory_entry x = (case stat_of x of None \<Rightarrow> False | Some s \<Rightarrow> isDirectory s)"

text \<open>
  The class of an entry in the display order: \<^verbatim>\<open>..\<close>, then the directories, then the
  rest.
\<close>

definition display_rank :: "TemplateLocalFilter \<Rightarrow> nat" where
  "display_rank x = (if name x = ''..'' then 0 else if is_directory_entry x then 1 else 2)"

text \<open>A name that starts with a dot.\<close>

definition dotfile :: "string \<Rightarrow> bool" where
  "dotfile f = (case f of [] \<Rightarrow> False | c # _ \<Rightarrow> c = CHR ''.'')"

definition demo_entries :: "TemplateLocalFilter list" where
  "demo_entries =
     [\<lparr>name = ''b.txt'', stat_of = Some file_stats\<rparr>,
      \<lparr>name = ''B.TXT'', stat_of = None\<rparr>,
      \<lparr>name = ''a.txt'', stat_of = Some file_stats\<rparr>,
      \<lparr>name = ''..'', stat_of = Some dir_stats\<rparr>,
      \<lparr>name = ''A'', stat_of = Some dir_stats\<rparr>]"

section \<open>Path confinement\<close>

lemma take_eq_iff_prefix: "(take (length r) p = r) = prefix r p"
  by (metis append_eq_conv_conj prefixE prefixI append_take_drop_id)

lemma prefix_append_same:
  assumes "prefix (r @ s) (p @ s)"
  shows "prefix r p"
proof -
  from assms have "length (r @ s) \<le> length (p @ s)" by (rule prefix_length_le)
  then have len: "length r \<le> length p" by simp
  from assms have "prefix r (p @ s)" by (rule append_prefixD)
  then obtain zs where zs: "p @ s = r @ zs" by (auto simp: prefix_def)
  then have "take (length r) (p @ s) = r" by simp
  with len have "take (length r) p = r" by simp
  then show ?thesis by (simp only: take_eq_iff_prefix)
qed

text \<open>A request that passes every check of the handler reaches the first \<^verbatim>\<open>fs.stat\<close>.\<close>

lemma serveIndex_resolved:
  assumes "root \<noteq> []" and "req_method req = ''GET'' \<or> req_method req = ''HEAD''"
    and "getRequestedDir h req = Some dir"
    and "decodeURIComponent h (case req_originalPathname req of None \<Rightarrow> [] | Some p \<Rightarrow> p)
           = Some originalDir"
    and "CHR 0x00 \<notin> set (joined_path h root dir)"
    and "prefix (rootPath h root) (joined_path h root dir @ sep h)"
  shows "serveIndex h fs root opts req =
           FsStat (joined_path h root dir) #
             stat_callback h fs opts req originalDir (showUp h root (joined_path h root dir))
               (joined_path h root dir) (fs_stat fs (joined_path h root dir))"
proof -
  from assms(6)
  have "take (length (rootPath h root)) (joined_path h root dir @ sep h) = rootPath h root"
    by (simp only: take_eq_iff_prefix)
  with assms(1-5) show ?thesis
    by (auto simp add: serveIndex_def Let_def simp del: take_append)
qed

lemma serveIndex_forbidden:
  assumes "root \<noteq> []" and "req_method req = ''GET'' \<or> req_method req = ''HEAD''"
    and "getRequestedDir h req = Some dir"
    and "decodeURIComponent h (case req_originalPathname req of None \<Rightarrow> [] | Some p \<Rightarrow> p)
           = Some originalDir"
    and "CHR 0x00 \<notin> set (joined_path h root dir)"
    and "\<not> prefix (rootPath h root) (joined_path h root dir @ sep h)"
  shows "serveIndex h fs root opts req = [Next (Some (HttpError 403))]"
proof -
  from assms(6)
  have "take (length (rootPath h root)) (joined_path h root dir @ sep h) \<noteq> rootPath h root"
    by (simp only: take_eq_iff_prefix not_False_eq_True)
  with assms(1-5) show ?thesis
    by (auto simp add: serveIndex_def Let_def simp del: take_append)
qed

text \<open>
  Claim C1, as amended. (A handler exists for a root that is not empty:
  \<^verbatim>\<open>serveIndex\<close> throws otherwise.) For every GET or HEAD request whose URL path and original URL path
  percent-decode and whose joined and normalized path holds no NUL character: when the
  path with the separator appended does not have the root path (the resolved root with
  the separator appended) as a prefix, the handler calls \<^verbatim>\<open>next\<close> with the error 403 and
  does nothing else, so it reads nothing from the file system; when it has, the handler
  goes on to \<^verbatim>\<open>fs.stat\<close> of that path, and the path has the root without its trailing
  separator as a prefix.
\<close>

theorem C1_confinement:
  assumes "root \<noteq> []" and "req_method req = ''GET'' \<or> req_method req = ''HEAD''"
    and "getRequestedDir h req = Some dir"
    and "decodeURIComponent h (case req_originalPathname req of None \<Rightarrow> [] | Some p \<Rightarrow> p)
           = Some originalDir"
    and "CHR 0x00 \<notin> set (joined_path h root dir)"
  shows "(\<not> prefix (rootPath h root) (joined_path h root dir @ sep h) \<longrightarrow>
            serveIndex h fs root opts req = [Next (Some (HttpError 403))])
       \<and> (prefix (rootPath h root) (joined_path h root dir @ sep h) \<longrightarrow>
            serveIndex h fs root opts req =
              FsStat (joined_path h root dir) #
                stat_callback h fs opts req originalDir (showUp h root (joined_path h root dir))
                  (joined_path h root dir) (fs_stat fs (joined_path h root dir))
            \<and> (\<forall>r. rootPath h root = r @ sep h \<longrightarrow> prefix r (joined_path h root dir)))"
proof (intro conjI impI allI)
  assume "\<not> prefix (rootPath h root) (joined_path h root dir @ sep h)"
  with assms show "serveIndex h fs root opts req = [Next (Some (HttpError 403))]"
    by (rule serveIndex_forbidden)
next
  assume "prefix (rootPath h root) (joined_path h root dir @ sep h)"
  with assms show "serveIndex h fs root opts req =
              FsStat (joined_path h root dir) #
                stat_callback h fs opts req originalDir (showUp h root (joined_path h root dir))
                  (joined_path h root dir) (fs_stat fs (joined_path h root dir))"
    by (rule serveIndex_resolved)
next
  fix r
  assume "prefix (rootPath h root) (joined_path h root dir @ sep h)"
    and "rootPath h root = r @ sep h"
  then have "prefix (r @ sep h) (joined_path h root dir @ sep h)" by simp
  then show "prefix r (joined_path h root dir)" by (rule prefix_append_same)
qed

text \<open>
  The request for \<^verbatim>\<open>/../etc\<close> leaves the root and is refused; the request for \<^verbatim>\<open>/.\<close>
  stays: its path is the root without the separator, which the root path with its
  separator is no prefix of.
\<close>

theorem C1_confinement_witness:
  "serveIndex posix_host demo_fs ''/srv/www'' default_options (request_for ''GET'' ''/../etc'' None)
     = [Next (Some (HttpError 403))]
   \<and> serveIndex posix_host demo_fs ''/srv/www'' default_options (request_for ''GET'' ''/.'' None)
     = FsStat ''/srv/www'' # stat_callback posix_host demo_fs default_options
         (request_for ''GET'' ''/.'' None) ''/.'' False ''/srv/www'' (Inr dir_stats)
   \<and> prefix ''/srv/www'' (joined_path posix_host ''/srv/www'' ''/.'')
   \<and> \<not> prefix (rootPath posix_host ''/srv/www'') (joined_path posix_host ''/srv/www'' ''/.'')"
proof -
  have root: "''/srv/www'' \<noteq> []" by simp
  have m: "req_method (request_for ''GET'' p None) = ''GET''
      \<or> req_method (request_for ''GET'' p None) = ''HEAD''" for p
    by (simp add: request_for_def)
  have out: "getRequestedDir posix_host (request_for ''GET'' ''/../etc'' None) = Some ''/../etc''"
    "decodeURIComponent posix_host
       (case req_originalPathname (request_for ''GET'' ''/../etc'' None) of
          None \<Rightarrow> [] | Some p \<Rightarrow> p) = Some ''/../etc''"
    "CHR 0x00 \<notin> set (joined_path posix_host ''/srv/www'' ''/../etc'')"
    "\<not> prefix (rootPath posix_host ''/srv/www'')
         (joined_path posix_host ''/srv/www'' ''/../etc'' @ sep posix_host)"
    by code_simp+
  have ins: "getRequestedDir posix_host (request_for ''GET'' ''/.'' None) = Some ''/.''"
    "decodeURIComponent posix_host
       (case req_originalPathname (request_for ''GET'' ''/.'' None) of
          None \<Rightarrow> [] | Some p \<Rightarrow> p) = Some ''/.''"
    "CHR 0x00 \<notin> set (joined_path posix_host ''/srv/www'' ''/.'')"
    "prefix (rootPath posix_host ''/srv/www'')
       (joined_path posix_host ''/srv/www'' ''/.'' @ sep posix_host)"
    by code_simp+
  have vals: "joined_path posix_host ''/srv/www'' ''/.'' = ''/srv/www''"
    "rootPath posix_host ''/srv/www'' = ''/srv/www'' @ sep posix_host"
    "showUp posix_host ''/srv/www'' ''/srv/www'' = False"
    "fs_stat demo_fs ''/srv/www'' = Inr dir_stats"
    "\<not> prefix (rootPath posix_host ''/srv/www'') ''/srv/www''"
    by code_simp+
  from C1_confinement [OF root m out(1,2,3), of demo_fs default_options] out(4)
  have a: "serveIndex posix_host demo_fs ''/srv/www'' default_options
      (request_for ''GET'' ''/../etc'' None) = [Next (Some (HttpError 403))]"
    by blast
  from C1_confinement [OF root m ins(1,2,3), of demo_fs default_options] ins(4) vals(2)
  have b: "serveIndex posix_host demo_fs ''/srv/www'' default_options
      (request_for ''GET'' ''/.'' None) =
        FsStat (joined_path posix_host ''/srv/www'' ''/.'') #
          stat_callback posix_host demo_fs default_options (request_for ''GET'' ''/.'' None) ''/.''
            (showUp posix_host ''/srv/www'' (joined_path posix_host ''/srv/www'' ''/.''))
            (joined_path posix_host ''/srv/www'' ''/.'')
            (fs_stat demo_fs (joined_path posix_host ''/srv/www'' ''/.''))"
    and c: "prefix ''/srv/www'' (joined_path posix_host ''/srv/www'' ''/.'')"
    by blast+
  from a b c vals show ?thesis by (simp only: simp_thms)
qed

text \<open>
  The claim as it was stated fails on three requests whose joined path leaves the root:
  one with a NUL character in it is answered with 400, a POST request with 405, and one
  whose original URL does not decode ends in the exception of \<^verbatim>\<open>decodeURIComponent\<close>.
\<close>

theorem C1_counterexample:
  "\<not> prefix (rootPath posix_host ''/srv/www'')
       (joined_path posix_host ''/srv/www'' (''/../'' @ [CHR 0x00]) @ sep posix_host)
   \<and> getRequestedDir posix_host (request_for ''GET'' ''/../%00'' None)
       = Some (''/../'' @ [CHR 0x00])
   \<and> serveIndex posix_host demo_fs ''/srv/www'' default_options
        (request_for ''GET'' ''/../%00'' None) = [Next (Some (HttpError 400))]
   \<and> \<not> prefix (rootPath posix_host ''/srv/www'')
       (joined_path posix_host ''/srv/www'' ''/../etc'' @ sep posix_host)
   \<and> serveIndex posix_host demo_fs ''/srv/www'' default_options
        (request_for ''POST'' ''/../etc'' None)
       = [ResEnd 405 [(''Allow'', ''GET, HEAD, OPTIONS''), (''Content-Length'', ''0'')] []]
   \<and> serveIndex posix_host demo_fs ''/srv/www'' default_options
        (mounted_request ''/../etc'' ''/%/../etc'') = [Throw ''URIError'']"
  by code_simp

section \<open>Bad requests\<close>

text \<open>
  Claim C8, as amended. For every GET or HEAD request: when the URL path fails
  percent-decoding, the handler calls \<^verbatim>\<open>next\<close> with the error 400 and does nothing else;
  when the URL path and the original URL path decode and the joined path holds a NUL
  character, it does the same. In both cases no call of the file system comes before.
\<close>

theorem C8_bad_request:
  assumes "root \<noteq> []" and "req_method req = ''GET'' \<or> req_method req = ''HEAD''"
  shows "(getRequestedDir h req = None \<longrightarrow>
            serveIndex h fs root opts req = [Next (Some (HttpError 400))])
       \<and> (\<forall>dir originalDir.
             getRequestedDir h req = Some dir
             \<and> decodeURIComponent h
                  (case req_originalPathname req of None \<Rightarrow> [] | Some p \<Rightarrow> p) = Some originalDir
             \<and> CHR 0x00 \<in> set (joined_path h root dir) \<longrightarrow>
             serveIndex h fs root opts req = [Next (Some (HttpError 400))])"
  using assms by (auto simp add: serveIndex_def Let_def simp del: take_append)

text \<open>
  A bare percent sign does not decode; \<^verbatim>\<open>%00\<close> decodes to a NUL character, which the
  joined path keeps.
\<close>

theorem C8_bad_request_witness:
  "getRequestedDir posix_host (request_for ''GET'' ''/%'' None) = None
   \<and> serveIndex posix_host demo_fs ''/srv/www'' default_options (request_for ''GET'' ''/%'' None)
       = [Next (Some (HttpError 400))]
   \<and> joined_path posix_host ''/srv/www'' [CHR ''/'', CHR 0x00] = ''/srv/www/'' @ [CHR 0x00]
   \<and> serveIndex posix_host demo_fs ''/srv/www'' default_options (request_for ''HEAD'' ''/%00'' None)
       = [Next (Some (HttpError 400))]"
proof -
  have root: "''/srv/www'' \<noteq> []" by simp
  have m: "req_method (request_for ''GET'' ''/%'' None) = ''GET''
      \<or> req_method (request_for ''GET'' ''/%'' None) = ''HEAD''"
     "req_method (request_for ''HEAD'' ''/%00'' None) = ''GET''
      \<or> req_method (request_for ''HEAD'' ''/%00'' None) = ''HEAD''"
    by (simp_all add: request_for_def)
  have bad: "getRequestedDir posix_host (request_for ''GET'' ''/%'' None) = None"
    by code_simp
  have nul: "getRequestedDir posix_host (request_for ''HEAD'' ''/%00'' None) = Some [CHR ''/'', CHR 0x00]"
    "decodeURIComponent posix_host
       (case req_originalPathname (request_for ''HEAD'' ''/%00'' None) of
          None \<Rightarrow> [] | Some p \<Rightarrow> p) = Some [CHR ''/'', CHR 0x00]"
    "CHR 0x00 \<in> set (joined_path posix_host ''/srv/www'' [CHR ''/'', CHR 0x00])"
    "joined_path posix_host ''/srv/www'' [CHR ''/'', CHR 0x00] = ''/srv/www/'' @ [CHR 0x00]"
    by code_simp+
  from C8_bad_request [OF root m(1), of posix_host demo_fs default_options] bad
  have a: "serveIndex posix_host demo_fs ''/srv/www'' default_options
      (request_for ''GET'' ''/%'' None) = [Next (Some (HttpError 400))]"
    by blast
  from C8_bad_request [OF root m(2), of posix_host demo_fs default_options] nul(1,2,3)
  have b: "serveIndex posix_host demo_fs ''/srv/www'' default_options
      (request_for ''HEAD'' ''/%00'' None) = [Next (Some (HttpError 400))]"
    by blast
  from a b bad nul(4) show ?thesis by (simp only: simp_thms)
qed

text \<open>
  The claim as it was stated fails on a POST request whose URL path does not decode,
  which is answered with 405, and on a request whose joined path holds a NUL character
  and whose original URL does not decode: the exception of \<^verbatim>\<open>decodeURIComponent\<close> leaves
  the handler before the NUL check.
\<close>

theorem C8_counterexample:
  "getRequestedDir posix_host (request_for ''POST'' ''/%'' None) = None
   \<and> serveIndex posix_host demo_fs ''/srv/www'' default_options (request_for ''POST'' ''/%'' None)
       = [ResEnd 405 [(''Allow'', ''GET, HEAD, OPTIONS''), (''Content-Length'', ''0'')] []]
   \<and> getRequestedDir posix_host (mounted_request ''/%00'' ''/%/%00'') = Some [CHR ''/'', CHR 0x00]
   \<and> CHR 0x00 \<in> set (joined_path posix_host ''/srv/www'' [CHR ''/'', CHR 0x00])
   \<and> serveIndex posix_host demo_fs ''/srv/www'' default_options
        (mounted_request ''/%00'' ''/%/%00'') = [Throw ''URIError'']"
  by code_simp

section \<open>The directory probe\<close>

text \<open>
  Claim C4. For every request that resolves to a path under the root, the outcome of the
  first \<^verbatim>\<open>fs.stat\<close> decides: ENOENT defers to the next handler without an error; any
  other failure goes to \<^verbatim>\<open>next\<close> as an error whose status is 414 for ENAMETOOLONG and
  500 otherwise; a path that is no directory defers to the next handler; a directory is
  read with \<^verbatim>\<open>fs.readdir\<close> and listed.
\<close>

theorem C4_probe:
  assumes "root \<noteq> []" and "req_method req = ''GET'' \<or> req_method req = ''HEAD''"
    and "getRequestedDir h req = Some dir"
    and "decodeURIComponent h (case req_originalPathname req of None \<Rightarrow> [] | Some p \<Rightarrow> p)
           = Some originalDir"
    and "CHR 0x00 \<notin> set (joined_path h root dir)"
    and "prefix (rootPath h root) (joined_path h root dir @ sep h)"
  shows "(fs_stat fs (joined_path h root dir) = Inl ''ENOENT'' \<longrightarrow>
            serveIndex h fs root opts req = [FsStat (joined_path h root dir), Next None])
       \<and> (\<forall>code. fs_stat fs (joined_path h root dir) = Inl code \<and> code \<noteq> ''ENOENT'' \<longrightarrow>
            serveIndex h fs root opts req =
              [FsStat (joined_path h root dir),
               Next (Some (ErrnoException code
                 (Some (if code = ''ENAMETOOLONG'' then 414 else 500))))])
       \<and> (\<forall>st. fs_stat fs (joined_path h root dir) = Inr st \<and> \<not> isDirectory st \<longrightarrow>
            serveIndex h fs root opts req = [FsStat (joined_path h root dir), Next None])
       \<and> (\<forall>st. fs_stat fs (joined_path h root dir) = Inr st \<and> isDirectory st \<longrightarrow>
            serveIndex h fs root opts req =
              FsStat (joined_path h root dir) # FsReaddir (joined_path h root dir) #
                (case fs_readdir fs (joined_path h root dir) of
                   Inl code \<Rightarrow> [Next (Some (ErrnoException code None))]
                 | Inr files \<Rightarrow>
                     readdir_callback h fs opts req originalDir
                       (showUp h root (joined_path h root dir)) (joined_path h root dir) files))"
  unfolding serveIndex_resolved [OF assms]
  by (simp add: stat_callback_def)

text \<open>
  Five requests on the file system above: a missing file, a path that may not be looked
  up, a name that is too long, a file, and a directory (whose listing ends in 406 here,
  as the request accepts only \<^verbatim>\<open>application/xml\<close>).
\<close>

theorem C4_probe_witness:
  "serveIndex posix_host demo_fs ''/srv/www'' default_options (request_for ''GET'' ''/nothing'' None)
     = [FsStat ''/srv/www/nothing'', Next None]
   \<and> serveIndex posix_host demo_fs ''/srv/www'' default_options (request_for ''GET'' ''/locked'' None)
     = [FsStat ''/srv/www/locked'', Next (Some (ErrnoException ''EACCES'' (Some 500)))]
   \<and> serveIndex posix_host demo_fs ''/srv/www'' default_options (request_for ''GET'' ''/a-name-of-thirty-two-characters.'' None)
     = [FsStat ''/srv/www/a-name-of-thirty-two-characters.'',
        Next (Some (ErrnoException ''ENAMETOOLONG'' (Some 414)))]
   \<and> serveIndex posix_host demo_fs ''/srv/www'' default_options (request_for ''GET'' ''/index.html'' None)
     = [FsStat ''/srv/www/index.html'', Next None]
   \<and> serveIndex posix_host demo_fs ''/srv/www'' default_options (request_for ''GET'' ''/docs'' (Some ''application/xml''))
     = [FsStat ''/srv/www/docs'', FsReaddir ''/srv/www/docs'', Next (Some (HttpError 406))]"
proof -
  have root: "''/srv/www'' \<noteq> []" by simp
  have m: "req_method (request_for ''GET'' p a) = ''GET''
      \<or> req_method (request_for ''GET'' p a) = ''HEAD''" for p a
    by (simp add: request_for_def)
  have h_nothing: "getRequestedDir posix_host (request_for ''GET'' ''/nothing'' None) = Some ''/nothing''"
    "decodeURIComponent posix_host
       (case req_originalPathname (request_for ''GET'' ''/nothing'' None) of
          None \<Rightarrow> [] | Some q \<Rightarrow> q) = Some ''/nothing''"
    "CHR 0x00 \<notin> set (joined_path posix_host ''/srv/www'' ''/nothing'')"
    "prefix (rootPath posix_host ''/srv/www'')
       (joined_path posix_host ''/srv/www'' ''/nothing'' @ sep posix_host)"
    by code_simp+
  have v_nothing: "joined_path posix_host ''/srv/www'' ''/nothing'' = ''/srv/www/nothing''"
    "fs_stat demo_fs ''/srv/www/nothing'' = Inl ''ENOENT''"
    by code_simp+
  have r_nothing: "serveIndex posix_host demo_fs ''/srv/www'' default_options (request_for ''GET'' ''/nothing'' None)
     = [FsStat ''/srv/www/nothing'', Next None]"
    using C4_probe [OF root m h_nothing, of demo_fs default_options] by (simp add: v_nothing)
  have h_locked: "getRequestedDir posix_host (request_for ''GET'' ''/locked'' None) = Some ''/locked''"
    "decodeURIComponent posix_host
       (case req_originalPathname (request_for ''GET'' ''/locked'' None) of
          None \<Rightarrow> [] | Some q \<Rightarrow> q) = Some ''/locked''"
    "CHR 0x00 \<notin> set (joined_path posix_host ''/srv/www'' ''/locked'')"
    "prefix (rootPath posix_host ''/srv/www'')
       (joined_path posix_host ''/srv/www'' ''/locked'' @ sep posix_host)"
    by code_simp+
  have v_locked: "joined_path posix_host ''/srv/www'' ''/locked'' = ''/srv/www/locked''"
    "fs_stat demo_fs ''/srv/www/locked'' = Inl ''EACCES''"
    by code_simp+
  have r_locked: "serveIndex posix_host demo_fs ''/srv/www'' default_options (request_for ''GET'' ''/locked'' None)
     = [FsStat ''/srv/www/locked'', Next (Some (ErrnoException ''EACCES'' (Some 500)))]"
    using C4_probe [OF root m h_locked, of demo_fs default_options] by (simp add: v_locked)
  have h_long: "getRequestedDir posix_host (request_for ''GET'' ''/a-name-of-thirty-two-characters.'' None) = Some ''/a-name-of-thirty-two-characters.''"
    "decodeURIComponent posix_host
       (case req_originalPathname (request_for ''GET'' ''/a-name-of-thirty-two-characters.'' None) of
          None \<Rightarrow> [] | Some q \<Rightarrow> q) = Some ''/a-name-of-thirty-two-characters.''"
    "CHR 0x00 \<notin> set (joined_path posix_host ''/srv/www'' ''/a-name-of-thirty-two-characters.'')"
    "prefix (rootPath posix_host ''/srv/www'')
       (joined_path posix_host ''/srv/www'' ''/a-name-of-thirty-two-characters.'' @ sep posix_host)"
    by code_simp+
  have v_long: "joined_path posix_host ''/srv/www'' ''/a-name-of-thirty-two-characters.'' = ''/srv/www/a-name-of-thirty-two-characters.''"
    "fs_stat demo_fs ''/srv/www/a-name-of-thirty-two-characters.'' = Inl ''ENAMETOOLONG''"
    by code_simp+
  have r_long: "serveIndex posix_host demo_fs ''/srv/www'' default_options (request_for ''GET'' ''/a-name-of-thirty-two-characters.'' None)
     = [FsStat ''/srv/www/a-name-of-thirty-two-characters.'',
        Next (Some (ErrnoException ''ENAMETOOLONG'' (Some 414)))]"
    using C4_probe [OF root m h_long, of demo_fs default_options] by (simp add: v_long)
  have h_file: "getRequestedDir posix_host (request_for ''GET'' ''/index.html'' None) = Some ''/index.html''"
    "decodeURIComponent posix_host
       (case req_originalPathname (request_for ''GET'' ''/index.html'' None) of
          None \<Rightarrow> [] | Some q \<Rightarrow> q) = Some ''/index.html''"
    "CHR 0x00 \<notin> set (joined_path posix_host ''/srv/www'' ''/index.html'')"
    "prefix (rootPath posix_host ''/srv/www'')
       (joined_path posix_host ''/srv/www'' ''/index.html'' @ sep posix_host)"
    by code_simp+
  have v_file: "joined_path posix_host ''/srv/www'' ''/index.html'' = ''/srv/www/index.html''"
    "fs_stat demo_fs ''/srv/www/index.html'' = Inr file_stats"
    "\<not> isDirectory file_stats"
    by code_simp+
  have r_file: "serveIndex posix_host demo_fs ''/srv/www'' default_options (request_for ''GET'' ''/index.html'' None)
     = [FsStat ''/srv/www/index.html'', Next None]"
    using C4_probe [OF root m h_file, of demo_fs default_options] by (simp add: v_file)
  have h_dir: "getRequestedDir posix_host (request_for ''GET'' ''/docs'' (Some ''application/xml'')) = Some ''/docs''"
    "decodeURIComponent posix_host
       (case req_originalPathname (request_for ''GET'' ''/docs'' (Some ''application/xml'')) of
          None \<Rightarrow> [] | Some q \<Rightarrow> q) = Some ''/docs''"
    "CHR 0x00 \<notin> set (joined_path posix_host ''/srv/www'' ''/docs'')"
    "prefix (rootPath posix_host ''/srv/www'')
       (joined_path posix_host ''/srv/www'' ''/docs'' @ sep posix_host)"
    by code_simp+
  have v_dir: "joined_path posix_host ''/srv/www'' ''/docs'' = ''/srv/www/docs''"
    "fs_stat demo_fs ''/srv/www/docs'' = Inr dir_stats"
    "isDirectory dir_stats"
    "fs_readdir demo_fs ''/srv/www/docs'' = Inr [''b.txt'', ''.hidden'', ''A'', ''gone.txt'']"
    "readdir_callback posix_host demo_fs default_options (request_for ''GET'' ''/docs'' (Some ''application/xml'')) ''/docs''
         (showUp posix_host ''/srv/www'' ''/srv/www/docs'') ''/srv/www/docs'' [''b.txt'', ''.hidden'', ''A'', ''gone.txt'']
       = [Next (Some (HttpError 406))]"
    by code_simp+
  have r_dir: "serveIndex posix_host demo_fs ''/srv/www'' default_options (request_for ''GET'' ''/docs'' (Some ''application/xml''))
     = [FsStat ''/srv/www/docs'', FsReaddir ''/srv/www/docs'', Next (Some (HttpError 406))]"
    using C4_probe [OF root m h_dir, of demo_fs default_options] by (simp add: v_dir)
  from r_nothing r_locked r_long r_file r_dir show ?thesis by (simp only: simp_thms)
qed

section \<open>Gathering the metadata\<close>

text \<open>
  When \<^verbatim>\<open>stat\<close> succeeds, it has looked up every name, in order, and no lookup failed
  with anything but ENOENT.
\<close>

lemma stat_Inr:
  "stat h fs dir files = (evs, Inr fl) \<Longrightarrow>
     evs = map (\<lambda>f. FsStat (path_join h dir f)) files
     \<and> fl = map (\<lambda>f. \<lparr>name = f,
                 stat_of = (case fs_stat fs (path_join h dir f) of
                              Inl code \<Rightarrow> None | Inr st \<Rightarrow> Some st)\<rparr>) files
     \<and> (\<forall>f \<in> set files. \<forall>code. fs_stat fs (path_join h dir f) = Inl code \<longrightarrow> code = ''ENOENT'')"
proof (induction files arbitrary: evs fl)
  case Nil
  then show ?case by simp
next
  case (Cons x xs)
  obtain evs' r where rest: "stat h fs dir xs = (evs', r)" by (cases "stat h fs dir xs")
  show ?case
  proof (cases "fs_stat fs (path_join h dir x)")
    case (Inl code)
    with Cons.prems rest have ok: "code = ''ENOENT''"
      by (auto simp: Let_def split: if_splits)
    with Cons.prems rest Inl obtain fl' where r: "r = Inr fl'"
      and out: "evs = FsStat (path_join h dir x) # evs'" "fl = \<lparr>name = x, stat_of = None\<rparr> # fl'"
      by (cases r) (auto simp: Let_def)
    from Cons.IH [of evs' fl'] rest r out Inl ok show ?thesis by simp
  next
    case (Inr st)
    with Cons.prems rest obtain fl' where r: "r = Inr fl'"
      and out: "evs = FsStat (path_join h dir x) # evs'" "fl = \<lparr>name = x, stat_of = Some st\<rparr> # fl'"
      by (cases r) (auto simp: Let_def)
    from Cons.IH [of evs' fl'] rest r out Inr show ?thesis by simp
  qed
qed

lemma stat_tolerant:
  "\<forall>f \<in> set files. \<forall>code. fs_stat fs (path_join h dir f) = Inl code \<longrightarrow> code = ''ENOENT'' \<Longrightarrow>
     stat h fs dir files =
       (map (\<lambda>f. FsStat (path_join h dir f)) files,
        Inr (map (\<lambda>f. \<lparr>name = f,
                 stat_of = (case fs_stat fs (path_join h dir f) of
                              Inl code \<Rightarrow> None | Inr st \<Rightarrow> Some st)\<rparr>) files))"
  by (induction files) (auto simp: Let_def split: sum.splits)

lemma stat_fail_fast:
  assumes "\<forall>g \<in> set pre. \<forall>c. fs_stat fs (path_join h dir g) = Inl c \<longrightarrow> c = ''ENOENT''"
    and "fs_stat fs (path_join h dir f) = Inl code" and "code \<noteq> ''ENOENT''"
  shows "stat h fs dir (pre @ f # post) =
           (map (\<lambda>f. FsStat (path_join h dir f)) (pre @ [f]), Inl (ErrnoException code None))"
  using assms by (induction pre) (auto simp: Let_def split: sum.splits)

text \<open>
  Claim C5. When every lookup succeeds or fails with ENOENT, the gather succeeds, and its
  result has one entry for every name, in order, with the metadata of the lookup, or with
  none where the lookup failed with ENOENT. When one lookup fails with another error and
  the others do not, the gather fails with that error and gives no entries; and whenever
  some lookup fails with another error, the gather fails with the error of such a lookup
  and gives no entries.
\<close>

theorem C5_gather:
  "((\<forall>f \<in> set files. \<forall>code. fs_stat fs (path_join h dir f) = Inl code \<longrightarrow> code = ''ENOENT'') \<longrightarrow>
      snd (stat h fs dir files) =
        Inr (map (\<lambda>f. \<lparr>name = f,
                   stat_of = (case fs_stat fs (path_join h dir f) of
                                Inl code \<Rightarrow> None | Inr st \<Rightarrow> Some st)\<rparr>) files))
   \<and> (\<forall>pre f post code.
         files = pre @ f # post
         \<and> (\<forall>g \<in> set (pre @ post). \<forall>c.
               fs_stat fs (path_join h dir g) = Inl c \<longrightarrow> c = ''ENOENT'')
         \<and> fs_stat fs (path_join h dir f) = Inl code \<and> code \<noteq> ''ENOENT'' \<longrightarrow>
         snd (stat h fs dir files) = Inl (ErrnoException code None))
   \<and> ((\<exists>f \<in> set files. \<exists>code. fs_stat fs (path_join h dir f) = Inl code \<and> code \<noteq> ''ENOENT'') \<longrightarrow>
        (\<exists>f \<in> set files. \<exists>code. fs_stat fs (path_join h dir f) = Inl code \<and> code \<noteq> ''ENOENT''
           \<and> snd (stat h fs dir files) = Inl (ErrnoException code None)))"
proof (intro conjI impI allI)
  assume "\<forall>f \<in> set files. \<forall>code. fs_stat fs (path_join h dir f) = Inl code \<longrightarrow> code = ''ENOENT''"
  then show "snd (stat h fs dir files) =
        Inr (map (\<lambda>f. \<lparr>name = f,
                   stat_of = (case fs_stat fs (path_join h dir f) of
                                Inl code \<Rightarrow> None | Inr st \<Rightarrow> Some st)\<rparr>) files)"
    by (simp add: stat_tolerant)
next
  fix pre f post code
  assume "files = pre @ f # post
         \<and> (\<forall>g \<in> set (pre @ post). \<forall>c.
               fs_stat fs (path_join h dir g) = Inl c \<longrightarrow> c = ''ENOENT'')
         \<and> fs_stat fs (path_join h dir f) = Inl code \<and> code \<noteq> ''ENOENT''"
  then have "files = pre @ f # post"
    and "\<forall>g \<in> set pre. \<forall>c. fs_stat fs (path_join h dir g) = Inl c \<longrightarrow> c = ''ENOENT''"
    and "fs_stat fs (path_join h dir f) = Inl code" and "code \<noteq> ''ENOENT''"
    by auto
  then show "snd (stat h fs dir files) = Inl (ErrnoException code None)"
    by (simp add: stat_fail_fast)
next
  let ?bad = "\<lambda>f. \<exists>code. fs_stat fs (path_join h dir f) = Inl code \<and> code \<noteq> ''ENOENT''"
  assume "\<exists>f \<in> set files. \<exists>code. fs_stat fs (path_join h dir f) = Inl code \<and> code \<noteq> ''ENOENT''"
  then have "\<exists>f \<in> set files. ?bad f" by simp
  then obtain pre f post where split: "files = pre @ f # post" and bad: "?bad f"
    and good: "\<forall>g \<in> set pre. \<not> ?bad g"
    by (auto dest!: split_list_first_prop)
  from bad obtain code where code: "fs_stat fs (path_join h dir f) = Inl code" "code \<noteq> ''ENOENT''"
    by blast
  from good have "\<forall>g \<in> set pre. \<forall>c. fs_stat fs (path_join h dir g) = Inl c \<longrightarrow> c = ''ENOENT''"
    by blast
  from stat_fail_fast [OF this code] split
  have "snd (stat h fs dir files) = Inl (ErrnoException code None)" by simp
  with code split show "\<exists>f \<in> set files. \<exists>code. fs_stat fs (path_join h dir f) = Inl code \<and> code \<noteq> ''ENOENT''
           \<and> snd (stat h fs dir files) = Inl (ErrnoException code None)"
    by auto
qed

text \<open>
  In \<^verbatim>\<open>docs\<close>, \<^verbatim>\<open>gone.txt\<close> is listed and gone: its entry has no metadata. In the root,
  \<^verbatim>\<open>locked\<close> may not be looked up: the gather fails with EACCES.
\<close>

theorem C5_gather_witness:
  "snd (stat posix_host demo_fs ''/srv/www/docs/'' [''A'', ''b.txt'', ''gone.txt''])
     = Inr [\<lparr>name = ''A'', stat_of = Some dir_stats\<rparr>,
            \<lparr>name = ''b.txt'', stat_of = Some file_stats\<rparr>,
            \<lparr>name = ''gone.txt'', stat_of = None\<rparr>]
   \<and> snd (stat posix_host demo_fs ''/srv/www/'' [''index.html'', ''locked'', ''docs''])
     = Inl (ErrnoException ''EACCES'' None)"
proof -
  have docs: "fs_stat demo_fs (path_join posix_host ''/srv/www/docs/'' ''A'') = Inr dir_stats"
    "fs_stat demo_fs (path_join posix_host ''/srv/www/docs/'' ''b.txt'') = Inr file_stats"
    "fs_stat demo_fs (path_join posix_host ''/srv/www/docs/'' ''gone.txt'') = Inl ''ENOENT''"
    by code_simp+
  have www: "fs_stat demo_fs (path_join posix_host ''/srv/www/'' ''index.html'') = Inr file_stats"
    "fs_stat demo_fs (path_join posix_host ''/srv/www/'' ''locked'') = Inl ''EACCES''"
    "fs_stat demo_fs (path_join posix_host ''/srv/www/'' ''docs'') = Inr dir_stats"
    by code_simp+
  have a: "snd (stat posix_host demo_fs ''/srv/www/docs/'' [''A'', ''b.txt'', ''gone.txt''])
     = Inr [\<lparr>name = ''A'', stat_of = Some dir_stats\<rparr>,
            \<lparr>name = ''b.txt'', stat_of = Some file_stats\<rparr>,
            \<lparr>name = ''gone.txt'', stat_of = None\<rparr>]"
    using C5_gather [where h = posix_host and fs = demo_fs and dir = "''/srv/www/docs/''"
        and files = "[''A'', ''b.txt'', ''gone.txt'']"]
    by (simp add: docs)
  have "[''index.html'', ''locked'', ''docs''] = [''index.html''] @ ''locked'' # [''docs'']
      \<and> (\<forall>g \<in> set ([''index.html''] @ [''docs'']). \<forall>c.
            fs_stat demo_fs (path_join posix_host ''/srv/www/'' g) = Inl c \<longrightarrow> c = ''ENOENT'')
      \<and> fs_stat demo_fs (path_join posix_host ''/srv/www/'' ''locked'') = Inl ''EACCES''
      \<and> ''EACCES'' \<noteq> ''ENOENT''"
    by (simp add: www)
  with C5_gather [where h = posix_host and fs = demo_fs and dir = "''/srv/www/''"
        and files = "[''index.html'', ''locked'', ''docs'']"]
  have b: "snd (stat posix_host demo_fs ''/srv/www/'' [''index.html'', ''locked'', ''docs''])
     = Inl (ErrnoException ''EACCES'' None)"
    by blast
  from a b show ?thesis by (simp only: simp_thms)
qed




section \<open>The display sort\<close>

text \<open>
  \<^verbatim>\<open>array_sort\<close> permutes its list. When the comparator is a total preorder, the result
  is sorted by it and entries that compare equal keep their order; a sorted list is left
  as it is.
\<close>

lemma dir_number_cases: "dir_number x = (if is_directory_entry x then 1 else 0)"
  by (simp add: dir_number_def is_directory_entry_def split: option.splits)

lemma mset_insort_by: "mset (insort_by cmp x xs) = add_mset x (mset xs)"
  by (induction xs) simp_all

lemma mset_array_sort: "mset (array_sort cmp xs) = mset xs"
  by (induction xs) (simp_all add: array_sort_def mset_insort_by)

lemma set_insort_by: "set (insort_by cmp x xs) = insert x (set xs)"
  by (induction xs) auto

lemma set_array_sort: "set (array_sort cmp xs) = set xs"
  by (induction xs) (simp_all add: array_sort_def set_insort_by)

lemma array_sort_Cons: "array_sort cmp (x # xs) = insort_by cmp x (array_sort cmp xs)"
  by (simp add: array_sort_def)

lemma sorted_insort_by:
  assumes total: "\<And>a b. cmp a b \<le> 0 \<or> cmp b a \<le> 0"
    and trans: "\<And>a b c. cmp a b \<le> 0 \<Longrightarrow> cmp b c \<le> 0 \<Longrightarrow> cmp a c \<le> 0"
    and "sorted_wrt (\<lambda>a b. cmp a b \<le> 0) xs"
  shows "sorted_wrt (\<lambda>a b. cmp a b \<le> 0) (insort_by cmp x xs)"
  using assms(3)
proof (induction xs)
  case Nil
  then show ?case by simp
next
  case (Cons y ys)
  show ?case
  proof (cases "cmp x y \<le> 0")
    case True
    with Cons.prems trans have "\<forall>z \<in> set (y # ys). cmp x z \<le> 0" by auto
    with True Cons.prems show ?thesis by simp
  next
    case False
    with total have "cmp y x \<le> 0" by blast
    with False Cons show ?thesis by (auto simp: set_insort_by)
  qed
qed

lemma sorted_array_sort:
  assumes "\<And>a b. cmp a b \<le> 0 \<or> cmp b a \<le> 0"
    and "\<And>a b c. cmp a b \<le> 0 \<Longrightarrow> cmp b c \<le> 0 \<Longrightarrow> cmp a c \<le> 0"
  shows "sorted_wrt (\<lambda>a b. cmp a b \<le> 0) (array_sort cmp xs)"
proof (induction xs)
  case Nil
  show ?case by (simp add: array_sort_def)
next
  case (Cons x xs)
  from sorted_insort_by [of cmp, OF assms Cons] show ?case by (simp add: array_sort_Cons)
qed

lemma array_sort_sorted_id:
  "sorted_wrt (\<lambda>a b. cmp a b \<le> 0) xs \<Longrightarrow> array_sort cmp xs = xs"
proof (induction xs)
  case Nil
  show ?case by (simp add: array_sort_def)
next
  case (Cons x xs)
  then have "array_sort cmp (x # xs) = insort_by cmp x xs" by (simp add: array_sort_Cons)
  also from Cons.prems have "\<dots> = x # xs" by (cases xs) simp_all
  finally show ?case .
qed

lemma filter_insort_by:
  assumes sym: "\<And>a b. cmp a b = 0 \<Longrightarrow> cmp b a = 0"
    and trans: "\<And>a b c. cmp a b \<le> 0 \<Longrightarrow> cmp b c \<le> 0 \<Longrightarrow> cmp a c \<le> 0"
  shows "filter (\<lambda>y. cmp z y = 0) (insort_by cmp x ys) =
           (if cmp z x = 0 then x # filter (\<lambda>y. cmp z y = 0) ys
            else filter (\<lambda>y. cmp z y = 0) ys)"
proof (induction ys)
  case Nil
  show ?case by simp
next
  case (Cons y ys)
  show ?case
  proof (cases "cmp x y \<le> 0")
    case True
    then show ?thesis by simp
  next
    case False
    have "\<not> (cmp z x = 0 \<and> cmp z y = 0)"
    proof
      assume a: "cmp z x = 0 \<and> cmp z y = 0"
      then have "cmp x z = 0" using sym by blast
      with a have "cmp x y \<le> 0" using trans [of x z y] by simp
      with False show False by simp
    qed
    with False Cons show ?thesis by auto
  qed
qed

lemma array_sort_stable:
  assumes "\<And>a b. cmp a b = 0 \<Longrightarrow> cmp b a = 0"
    and "\<And>a b c. cmp a b \<le> 0 \<Longrightarrow> cmp b c \<le> 0 \<Longrightarrow> cmp a c \<le> 0"
  shows "filter (\<lambda>y. cmp z y = 0) (array_sort cmp xs) = filter (\<lambda>y. cmp z y = 0) xs"
  by (induction xs) (simp_all add: array_sort_Cons filter_insort_by [of cmp, OF assms] array_sort_def)

text \<open>
  \<^verbatim>\<open>fileSort\<close> compares the classes first and the names, in lower case, within a class
  other than that of \<^verbatim>\<open>..\<close>.
\<close>

lemma fileSort_le:
  "(fileSort h a b \<le> 0) =
     (display_rank a < display_rank b \<or> display_rank a = display_rank b \<and> (display_rank a = 0 \<or>
        localeCompare h (toLocaleLowerCase h (name a)) (toLocaleLowerCase h (name b)) \<le> 0))"
  by (auto simp: fileSort_def display_rank_def dir_number_cases Let_def)

lemma fileSort_less:
  "(fileSort h a b < 0) =
     (display_rank a < display_rank b \<or> display_rank a = display_rank b \<and> display_rank a \<noteq> 0 \<and>
        localeCompare h (toLocaleLowerCase h (name a)) (toLocaleLowerCase h (name b)) < 0)"
  by (auto simp: fileSort_def display_rank_def dir_number_cases Let_def)

lemma fileSort_greater:
  "(0 < fileSort h a b) =
     (display_rank b < display_rank a \<or> display_rank a = display_rank b \<and> display_rank a \<noteq> 0 \<and>
        0 < localeCompare h (toLocaleLowerCase h (name a)) (toLocaleLowerCase h (name b)))"
  by (auto simp: fileSort_def display_rank_def dir_number_cases Let_def)

lemma fileSort_consistent:
  assumes sym: "\<And>a b. (localeCompare h a b < 0) = (0 < localeCompare h b a)"
    and trans: "\<And>a b c. localeCompare h a b \<le> 0 \<Longrightarrow> localeCompare h b c \<le> 0
                  \<Longrightarrow> localeCompare h a c \<le> 0"
  shows "(fileSort h a b < 0) = (0 < fileSort h b a)"
    and "fileSort h a b \<le> 0 \<Longrightarrow> fileSort h b c \<le> 0 \<Longrightarrow> fileSort h a c \<le> 0"
proof -
  show "(fileSort h a b < 0) = (0 < fileSort h b a)"
    unfolding fileSort_less fileSort_greater using sym by auto
  show "fileSort h a b \<le> 0 \<Longrightarrow> fileSort h b c \<le> 0 \<Longrightarrow> fileSort h a c \<le> 0"
  proof -
    assume ab: "fileSort h a b \<le> 0" and bc: "fileSort h b c \<le> 0"
    have t: "localeCompare h (toLocaleLowerCase h (name a)) (toLocaleLowerCase h (name b)) \<le> 0
        \<Longrightarrow> localeCompare h (toLocaleLowerCase h (name b)) (toLocaleLowerCase h (name c)) \<le> 0
        \<Longrightarrow> localeCompare h (toLocaleLowerCase h (name a)) (toLocaleLowerCase h (name c)) \<le> 0"
      by (rule trans)
    from ab bc t show ?thesis unfolding fileSort_le by auto
  qed
qed

text \<open>
  Claim C9. Let \<^verbatim>\<open>localeCompare\<close> be a consistent comparator: it is negative one way
  exactly when it is positive the other way, and not-greater is transitive. Then the
  display sort permutes the entries into an order in which an entry named \<^verbatim>\<open>..\<close> comes
  before every other entry, a directory before every entry that is none, and two entries
  of the same class in the order of their names in lower case; entries that compare
  equal keep their original order; and sorting the sorted list again gives the same list.
\<close>

theorem C9_display_sort:
  assumes sym: "\<And>a b. (localeCompare h a b < 0) = (0 < localeCompare h b a)"
    and trans: "\<And>a b c. localeCompare h a b \<le> 0 \<Longrightarrow> localeCompare h b c \<le> 0
                  \<Longrightarrow> localeCompare h a c \<le> 0"
  shows "mset (array_sort (fileSort h) xs) = mset xs
    \<and> sorted_wrt (\<lambda>a b.
          (name b = ''..'' \<longrightarrow> name a = ''..'')
        \<and> (name a \<noteq> ''..'' \<and> is_directory_entry b \<longrightarrow> is_directory_entry a)
        \<and> (name a \<noteq> ''..'' \<and> is_directory_entry a = is_directory_entry b \<longrightarrow>
             localeCompare h (toLocaleLowerCase h (name a)) (toLocaleLowerCase h (name b)) \<le> 0))
        (array_sort (fileSort h) xs)
    \<and> (\<forall>x. filter (\<lambda>y. fileSort h x y = 0) (array_sort (fileSort h) xs)
            = filter (\<lambda>y. fileSort h x y = 0) xs)
    \<and> array_sort (fileSort h) (array_sort (fileSort h) xs) = array_sort (fileSort h) xs"
proof -
  have less: "(fileSort h a b < 0) = (0 < fileSort h b a)" for a b
    by (rule fileSort_consistent(1)) (fact sym, fact trans)
  have tr: "fileSort h a b \<le> 0 \<Longrightarrow> fileSort h b c \<le> 0 \<Longrightarrow> fileSort h a c \<le> 0" for a b c
  proof -
    assume ab: "fileSort h a b \<le> 0" and bc: "fileSort h b c \<le> 0"
    show ?thesis by (rule fileSort_consistent(2) [OF _ _ ab bc]) (fact sym, fact trans)
  qed
  have total: "fileSort h a b \<le> 0 \<or> fileSort h b a \<le> 0" for a b
    using less [of a b] by linarith
  have eq: "fileSort h a b = 0 \<Longrightarrow> fileSort h b a = 0" for a b
    using less [of a b] less [of b a] by linarith
  have sorted: "sorted_wrt (\<lambda>a b. fileSort h a b \<le> 0) (array_sort (fileSort h) xs)"
    using total tr by (rule sorted_array_sort)
  have order: "sorted_wrt (\<lambda>a b.
          (name b = ''..'' \<longrightarrow> name a = ''..'')
        \<and> (name a \<noteq> ''..'' \<and> is_directory_entry b \<longrightarrow> is_directory_entry a)
        \<and> (name a \<noteq> ''..'' \<and> is_directory_entry a = is_directory_entry b \<longrightarrow>
             localeCompare h (toLocaleLowerCase h (name a)) (toLocaleLowerCase h (name b)) \<le> 0))
        (array_sort (fileSort h) xs)"
    by (rule sorted_wrt_mono_rel [OF _ sorted]) (auto simp: fileSort_le display_rank_def split: if_splits)
  have stable: "filter (\<lambda>y. fileSort h x y = 0) (array_sort (fileSort h) xs)
            = filter (\<lambda>y. fileSort h x y = 0) xs" for x
    using eq tr by (rule array_sort_stable)
  from sorted have idem: "array_sort (fileSort h) (array_sort (fileSort h) xs) = array_sort (fileSort h) xs"
    by (rule array_sort_sorted_id)
  from order stable idem show ?thesis by (simp add: mset_array_sort)
qed

text \<open>Code-unit order is a consistent comparator.\<close>

lemma code_unit_compare_consistent:
  "(code_unit_compare a b < 0) = (0 < code_unit_compare b a)"
  "code_unit_compare a b \<le> 0 \<Longrightarrow> code_unit_compare b c \<le> 0 \<Longrightarrow> code_unit_compare a c \<le> 0"
  by (auto simp: code_unit_compare_def split: if_splits)

text \<open>
  Five entries, two of them with the same name in lower case: \<^verbatim>\<open>b.txt\<close> stays before
  \<^verbatim>\<open>B.TXT\<close>.
\<close>

theorem C9_display_sort_witness:
  "array_sort (fileSort posix_host) demo_entries =
     [\<lparr>name = ''..'', stat_of = Some dir_stats\<rparr>,
      \<lparr>name = ''A'', stat_of = Some dir_stats\<rparr>,
      \<lparr>name = ''a.txt'', stat_of = Some file_stats\<rparr>,
      \<lparr>name = ''b.txt'', stat_of = Some file_stats\<rparr>,
      \<lparr>name = ''B.TXT'', stat_of = None\<rparr>]
   \<and> array_sort (fileSort posix_host) (array_sort (fileSort posix_host) demo_entries)
       = array_sort (fileSort posix_host) demo_entries
   \<and> filter (\<lambda>y. fileSort posix_host \<lparr>name = ''b.txt'', stat_of = None\<rparr> y = 0)
        (array_sort (fileSort posix_host) demo_entries)
       = [\<lparr>name = ''b.txt'', stat_of = Some file_stats\<rparr>, \<lparr>name = ''B.TXT'', stat_of = None\<rparr>]"
proof -
  have lc: "localeCompare posix_host = code_unit_compare" by (simp add: posix_host_def)
  have sym: "\<And>a b. (localeCompare posix_host a b < 0) = (0 < localeCompare posix_host b a)"
    unfolding lc by (rule code_unit_compare_consistent)
  have trans: "\<And>a b c. localeCompare posix_host a b \<le> 0 \<Longrightarrow> localeCompare posix_host b c \<le> 0
      \<Longrightarrow> localeCompare posix_host a c \<le> 0"
    unfolding lc by (rule code_unit_compare_consistent)
  note t = C9_display_sort [of posix_host demo_entries, THEN conjunct2, THEN conjunct2]
  have stable: "filter (\<lambda>y. fileSort posix_host \<lparr>name = ''b.txt'', stat_of = None\<rparr> y = 0)
        (array_sort (fileSort posix_host) demo_entries)
       = filter (\<lambda>y. fileSort posix_host \<lparr>name = ''b.txt'', stat_of = None\<rparr> y = 0) demo_entries"
    by (rule t [THEN conjunct1, THEN spec]) (fact sym, fact trans)
  have idem: "array_sort (fileSort posix_host) (array_sort (fileSort posix_host) demo_entries)
       = array_sort (fileSort posix_host) demo_entries"
    by (rule t [THEN conjunct2]) (fact sym, fact trans)
  have v: "array_sort (fileSort posix_host) demo_entries =
     [\<lparr>name = ''..'', stat_of = Some dir_stats\<rparr>,
      \<lparr>name = ''A'', stat_of = Some dir_stats\<rparr>,
      \<lparr>name = ''a.txt'', stat_of = Some file_stats\<rparr>,
      \<lparr>name = ''b.txt'', stat_of = Some file_stats\<rparr>,
      \<lparr>name = ''B.TXT'', stat_of = None\<rparr>]"
    by code_simp
  have f: "filter (\<lambda>y. fileSort posix_host \<lparr>name = ''b.txt'', stat_of = None\<rparr> y = 0) demo_entries
       = [\<lparr>name = ''b.txt'', stat_of = Some file_stats\<rparr>, \<lparr>name = ''B.TXT'', stat_of = None\<rparr>]"
    by code_simp
  from v f stable idem show ?thesis by (simp only: simp_thms)
qed

section \<open>The listing and its renderers\<close>

text \<open>
  The listed names are names of the directory, without the dot names unless
  \<^verbatim>\<open>hidden\<close> is set. A gather that succeeds gives the entries of exactly the names it
  was given, in their order, and the display sort permutes them. The negotiated type
  selects the renderer, and the HTML renderer calls the template with the sorted entries.
\<close>

lemma removeHidden_no_dot: "f \<in> set (removeHidden files) \<Longrightarrow> \<not> dotfile f"
  by (auto simp: removeHidden_def dotfile_def split: list.splits)

lemma set_removeHidden: "set (removeHidden files) \<subseteq> set files"
  by (auto simp: removeHidden_def)

lemma set_array_filter: "set (array_filter p files) \<subseteq> set files"
  by (auto simp: array_filter_def dest: set_zip_leftD)

lemma set_listed_files:
  "set (listed_files opts path raw)
     \<subseteq> (if hidden opts then set raw else set (removeHidden raw))"
  using set_array_filter by (auto simp: listed_files_def Let_def split: option.splits)

lemma listed_files_no_dot:
  "\<not> hidden opts \<Longrightarrow> f \<in> set (listed_files opts path raw) \<Longrightarrow> \<not> dotfile f"
  using set_listed_files [of opts path raw] removeHidden_no_dot by auto

lemma listed_files_subset: "set (listed_files opts path raw) \<subseteq> set raw"
  using set_listed_files [of opts path raw] set_removeHidden [of raw]
  by (auto split: if_splits)

lemma stat_names:
  assumes "stat h fs dir files = (evs, Inr fl)"
  shows "map name fl = files" and "evs = map (\<lambda>f. FsStat (path_join h dir f)) files"
  using stat_Inr [OF assms] by (simp_all add: comp_def)

lemma sorted_names:
  assumes "stat h fs dir files = (evs, Inr fl)"
  shows "name ` set (array_sort cmp fl) = set files"
proof -
  have "name ` set (array_sort cmp fl) = set (map name fl)" by (simp add: set_array_sort)
  with stat_names(1) [OF assms] show ?thesis by simp
qed

lemma readdir_callback_json:
  "accepts_type h (req_accept req) mediaTypes = Some ''application/json'' \<Longrightarrow>
     readdir_callback h fs opts req originalDir up path raw =
       serveIndex_json h fs (listed_files opts path raw) path"
  by (simp add: readdir_callback_def mediaType_def Let_def)

lemma readdir_callback_plain:
  "accepts_type h (req_accept req) mediaTypes = Some ''text/plain'' \<Longrightarrow>
     readdir_callback h fs opts req originalDir up path raw =
       serveIndex_plain h fs (listed_files opts path raw) path"
  by (simp add: readdir_callback_def mediaType_def Let_def)

lemma readdir_callback_html:
  "accepts_type h (req_accept req) mediaTypes = Some ''text/html'' \<Longrightarrow>
     readdir_callback h fs opts req originalDir up path raw =
       serveIndex_html h fs (listed_files opts path raw) originalDir up (icons opts) path
         (or_default (view opts) ''tiles'')
         (case template_opt opts of
            None \<Rightarrow> TemplatePath (defaultTemplate h)
          | Some (TemplatePath t) \<Rightarrow> TemplatePath (if t = [] then defaultTemplate h else t)
          | Some (TemplateFn f) \<Rightarrow> TemplateFn f)
         (or_default (stylesheet opts) (defaultStylesheet h))"
  by (simp add: readdir_callback_def mediaType_def Let_def)

lemma serveIndex_html_render:
  assumes st: "stat h fs path (if up then ''..'' # files else files) = (evs, Inr fl)"
    and r: "Render L \<in> set (serveIndex_html h fs files dir up icns path vw tmpl css)"
  shows "fileList L = array_sort (fileSort h) fl"
proof -
  from stat_names(2) [OF st] have evs: "Render L \<notin> set evs" by auto
  show ?thesis
  proof (cases tmpl)
    case (TemplatePath t)
    with st r evs show ?thesis
      by (auto simp: serveIndex_html_def Let_def createHtmlRender_def send_def
          split: sum.splits prod.splits if_splits)
  next
    case (TemplateFn f)
    with st r evs show ?thesis
      by (auto simp: serveIndex_html_def Let_def send_def
          split: sum.splits prod.splits if_splits)
  qed
qed




text \<open>
  Claim C2, as amended. With \<^verbatim>\<open>hidden\<close> not set, no name that starts with a dot is among
  the entries the JSON and the plain renderer send, and the only such name among the
  entries the HTML renderer hands to the template is \<^verbatim>\<open>..\<close>, which is there only when
  the resolved path differs from the root. This holds for every directory, whatever
  \<^verbatim>\<open>fs.readdir\<close> returned for it, and for every filter.
\<close>

theorem C2_hidden_entries:
  assumes "\<not> hidden opts"
  shows "(\<forall>evs fl. stat h fs path (listed_files opts path raw) = (evs, Inr fl) \<longrightarrow>
            (\<forall>e \<in> set (array_sort (fileSort h) fl). \<not> dotfile (name e))
          \<and> (accepts_type h (req_accept req) mediaTypes = Some ''application/json'' \<longrightarrow>
               readdir_callback h fs opts req originalDir up path raw =
                 evs @ [send ''application/json''
                          (JSON_stringify (map name (array_sort (fileSort h) fl)))])
          \<and> (accepts_type h (req_accept req) mediaTypes = Some ''text/plain'' \<longrightarrow>
               readdir_callback h fs opts req originalDir up path raw =
                 evs @ [send ''text/plain''
                          (array_join [CHR 0x0A] (map name (array_sort (fileSort h) fl))
                             @ [CHR 0x0A])]))
       \<and> (\<forall>evs fl.
            stat h fs path
              (if up then ''..'' # listed_files opts path raw else listed_files opts path raw)
              = (evs, Inr fl) \<longrightarrow>
            (\<forall>e \<in> set (array_sort (fileSort h) fl). dotfile (name e) \<longrightarrow> up \<and> name e = ''..'')
          \<and> (accepts_type h (req_accept req) mediaTypes = Some ''text/html'' \<longrightarrow>
               (\<forall>L. Render L \<in> set (readdir_callback h fs opts req originalDir up path raw) \<longrightarrow>
                    fileList L = array_sort (fileSort h) fl)))"
proof (intro conjI allI impI ballI)
  fix evs fl e
  assume st: "stat h fs path (listed_files opts path raw) = (evs, Inr fl)"
    and e: "e \<in> set (array_sort (fileSort h) fl)"
  from e sorted_names [OF st, of "fileSort h"] have "name e \<in> set (listed_files opts path raw)"
    by blast
  with assms show "\<not> dotfile (name e)" by (rule listed_files_no_dot)
next
  fix evs fl
  assume st: "stat h fs path (listed_files opts path raw) = (evs, Inr fl)"
    and "accepts_type h (req_accept req) mediaTypes = Some ''application/json''"
  then show "readdir_callback h fs opts req originalDir up path raw =
                 evs @ [send ''application/json''
                          (JSON_stringify (map name (array_sort (fileSort h) fl)))]"
    by (simp add: readdir_callback_json serveIndex_json_def)
next
  fix evs fl
  assume st: "stat h fs path (listed_files opts path raw) = (evs, Inr fl)"
    and "accepts_type h (req_accept req) mediaTypes = Some ''text/plain''"
  then show "readdir_callback h fs opts req originalDir up path raw =
                 evs @ [send ''text/plain''
                          (array_join [CHR 0x0A] (map name (array_sort (fileSort h) fl))
                             @ [CHR 0x0A])]"
    by (simp add: readdir_callback_plain serveIndex_plain_def)
next
  fix evs fl e
  assume st: "stat h fs path
              (if up then ''..'' # listed_files opts path raw else listed_files opts path raw)
              = (evs, Inr fl)"
    and e: "e \<in> set (array_sort (fileSort h) fl)" and dot: "dotfile (name e)"
  from e sorted_names [OF st, of "fileSort h"]
  have "name e \<in> set (if up then ''..'' # listed_files opts path raw
                        else listed_files opts path raw)"
    by blast
  with dot assms listed_files_no_dot [of opts "name e" path raw]
  show "up" and "name e = ''..''" by (auto split: if_splits)
next
  fix evs fl L
  assume st: "stat h fs path
              (if up then ''..'' # listed_files opts path raw else listed_files opts path raw)
              = (evs, Inr fl)"
    and acc: "accepts_type h (req_accept req) mediaTypes = Some ''text/html''"
    and r: "Render L \<in> set (readdir_callback h fs opts req originalDir up path raw)"
  from r show "fileList L = array_sort (fileSort h) fl"
    unfolding readdir_callback_html [OF acc] by (rule serveIndex_html_render [OF st])
qed

text \<open>
  The directory \<^verbatim>\<open>docs\<close> holds \<^verbatim>\<open>.hidden\<close>; the JSON listing leaves it out.
\<close>

theorem C2_hidden_entries_witness:
  "readdir_callback posix_host demo_fs default_options
       (request_for ''GET'' ''/docs/'' (Some ''application/json'')) ''/docs/'' True ''/srv/www/docs/''
       [''b.txt'', ''.hidden'', ''A'', ''gone.txt'']
     = [FsStat ''/srv/www/docs/A'', FsStat ''/srv/www/docs/b.txt'', FsStat ''/srv/www/docs/gone.txt'',
        send ''application/json'' (JSON_stringify [''A'', ''b.txt'', ''gone.txt''])]
   \<and> \<not> dotfile ''A'' \<and> \<not> dotfile ''b.txt'' \<and> \<not> dotfile ''gone.txt'' \<and> dotfile ''.hidden''"
proof -
  have nh: "\<not> hidden default_options" by (simp add: default_options_def)
  have st: "stat posix_host demo_fs ''/srv/www/docs/''
        (listed_files default_options ''/srv/www/docs/'' [''b.txt'', ''.hidden'', ''A'', ''gone.txt''])
      = ([FsStat ''/srv/www/docs/A'', FsStat ''/srv/www/docs/b.txt'', FsStat ''/srv/www/docs/gone.txt''],
         Inr [\<lparr>name = ''A'', stat_of = Some dir_stats\<rparr>,
              \<lparr>name = ''b.txt'', stat_of = Some file_stats\<rparr>,
              \<lparr>name = ''gone.txt'', stat_of = None\<rparr>])"
    by code_simp
  have acc: "accepts_type posix_host
        (req_accept (request_for ''GET'' ''/docs/'' (Some ''application/json''))) mediaTypes
      = Some ''application/json''"
    by code_simp
  have v: "map name (array_sort (fileSort posix_host)
        [\<lparr>name = ''A'', stat_of = Some dir_stats\<rparr>,
         \<lparr>name = ''b.txt'', stat_of = Some file_stats\<rparr>,
         \<lparr>name = ''gone.txt'', stat_of = None\<rparr>]) = [''A'', ''b.txt'', ''gone.txt'']"
    by code_simp
  have d: "\<not> dotfile ''A''" "\<not> dotfile ''b.txt''" "\<not> dotfile ''gone.txt''" "dotfile ''.hidden''"
    by (simp_all add: dotfile_def)
  from C2_hidden_entries [OF nh, where h = posix_host and fs = demo_fs
      and path = "''/srv/www/docs/''" and raw = "[''b.txt'', ''.hidden'', ''A'', ''gone.txt'']"
      and req = "request_for ''GET'' ''/docs/'' (Some ''application/json'')"
      and originalDir = "''/docs/''" and up = True] st acc
  have "readdir_callback posix_host demo_fs default_options
       (request_for ''GET'' ''/docs/'' (Some ''application/json'')) ''/docs/'' True ''/srv/www/docs/''
       [''b.txt'', ''.hidden'', ''A'', ''gone.txt'']
     = [FsStat ''/srv/www/docs/A'', FsStat ''/srv/www/docs/b.txt'', FsStat ''/srv/www/docs/gone.txt'']
       @ [send ''application/json'' (JSON_stringify (map name (array_sort (fileSort posix_host)
        [\<lparr>name = ''A'', stat_of = Some dir_stats\<rparr>,
         \<lparr>name = ''b.txt'', stat_of = Some file_stats\<rparr>,
         \<lparr>name = ''gone.txt'', stat_of = None\<rparr>])))]"
    by blast
  with d show ?thesis by (simp add: v)
qed

text \<open>
  The claim as it was stated fails on the HTML listing of \<^verbatim>\<open>/docs/\<close>: with
  \<^verbatim>\<open>hidden\<close> not set, the entries handed to the template begin with \<^verbatim>\<open>..\<close>, a name
  that starts with a dot.
\<close>

theorem C2_counterexample:
  "\<not> hidden default_options
   \<and> dotfile ''..''
   \<and> serveIndex posix_host demo_fs ''/srv/www'' default_options
       (request_for ''GET'' ''/docs/'' (Some ''text/html''))
     = [FsStat ''/srv/www/docs/'', FsReaddir ''/srv/www/docs/'',
        FsStat ''/srv/www'', FsStat ''/srv/www/docs/A'', FsStat ''/srv/www/docs/b.txt'',
        FsStat ''/srv/www/docs/gone.txt'', FsReadFile ''/app/public/style.css'',
        Render \<lparr>directory = ''/docs/'', displayIcons = False,
                fileList = [\<lparr>name = ''..'', stat_of = Some dir_stats\<rparr>,
                            \<lparr>name = ''A'', stat_of = Some dir_stats\<rparr>,
                            \<lparr>name = ''b.txt'', stat_of = Some file_stats\<rparr>,
                            \<lparr>name = ''gone.txt'', stat_of = None\<rparr>],
                path_of = ''/srv/www/docs/'', style = ''body {}'', viewName = ''tiles''\<rparr>,
        FsReadFile ''/app/public/directory.html'',
        send ''text/html'' ''<ul></ul>'']"
  by code_simp

text \<open>
  Claim C10. Only the HTML renderer adds the entry \<^verbatim>\<open>..\<close>. For a directory whose
  names, as \<^verbatim>\<open>fs.readdir\<close> returns them, do not hold \<^verbatim>\<open>..\<close> (Node leaves \<^verbatim>\<open>.\<close> and
  \<^verbatim>\<open>..\<close> out of that result), and with \<^verbatim>\<open>showUp\<close> true: the listing that the JSON or
  the plain renderer sends has no entry \<^verbatim>\<open>..\<close>, and when the gather fails these
  renderers send nothing and call \<^verbatim>\<open>next\<close> with its error; the entries that the HTML
  renderer hands to the template do have the entry \<^verbatim>\<open>..\<close>.
\<close>

theorem C10_parent_link:
  assumes "''..'' \<notin> set raw"
  shows "(\<forall>evs fl. stat h fs path (listed_files opts path raw) = (evs, Inr fl) \<longrightarrow>
            ''..'' \<notin> set (map name (array_sort (fileSort h) fl))
          \<and> (accepts_type h (req_accept req) mediaTypes = Some ''application/json'' \<longrightarrow>
               readdir_callback h fs opts req originalDir True path raw =
                 evs @ [send ''application/json''
                          (JSON_stringify (map name (array_sort (fileSort h) fl)))])
          \<and> (accepts_type h (req_accept req) mediaTypes = Some ''text/plain'' \<longrightarrow>
               readdir_callback h fs opts req originalDir True path raw =
                 evs @ [send ''text/plain''
                          (array_join [CHR 0x0A] (map name (array_sort (fileSort h) fl))
                             @ [CHR 0x0A])]))
       \<and> (\<forall>evs err. stat h fs path (listed_files opts path raw) = (evs, Inl err) \<longrightarrow>
            (accepts_type h (req_accept req) mediaTypes = Some ''application/json''
             \<or> accepts_type h (req_accept req) mediaTypes = Some ''text/plain'') \<longrightarrow>
            readdir_callback h fs opts req originalDir True path raw = evs @ [Next (Some err)])
       \<and> (\<forall>evs fl. stat h fs path (''..'' # listed_files opts path raw) = (evs, Inr fl) \<longrightarrow>
            ''..'' \<in> set (map name (array_sort (fileSort h) fl))
          \<and> (accepts_type h (req_accept req) mediaTypes = Some ''text/html'' \<longrightarrow>
               (\<forall>L. Render L \<in> set (readdir_callback h fs opts req originalDir True path raw) \<longrightarrow>
                    fileList L = array_sort (fileSort h) fl)))"
proof (intro conjI allI impI)
  fix evs fl
  assume st: "stat h fs path (listed_files opts path raw) = (evs, Inr fl)"
  from sorted_names [OF st, of "fileSort h"] listed_files_subset [of opts path raw] assms
  show "''..'' \<notin> set (map name (array_sort (fileSort h) fl))" by auto
next
  fix evs fl
  assume "stat h fs path (listed_files opts path raw) = (evs, Inr fl)"
    and "accepts_type h (req_accept req) mediaTypes = Some ''application/json''"
  then show "readdir_callback h fs opts req originalDir True path raw =
                 evs @ [send ''application/json''
                          (JSON_stringify (map name (array_sort (fileSort h) fl)))]"
    by (simp add: readdir_callback_json serveIndex_json_def)
next
  fix evs fl
  assume "stat h fs path (listed_files opts path raw) = (evs, Inr fl)"
    and "accepts_type h (req_accept req) mediaTypes = Some ''text/plain''"
  then show "readdir_callback h fs opts req originalDir True path raw =
                 evs @ [send ''text/plain''
                          (array_join [CHR 0x0A] (map name (array_sort (fileSort h) fl))
                             @ [CHR 0x0A])]"
    by (simp add: readdir_callback_plain serveIndex_plain_def)
next
  fix evs err
  assume "stat h fs path (listed_files opts path raw) = (evs, Inl err)"
    and "accepts_type h (req_accept req) mediaTypes = Some ''application/json''
         \<or> accepts_type h (req_accept req) mediaTypes = Some ''text/plain''"
  then show "readdir_callback h fs opts req originalDir True path raw = evs @ [Next (Some err)]"
    by (auto simp: readdir_callback_json readdir_callback_plain serveIndex_json_def
        serveIndex_plain_def)
next
  fix evs fl
  assume st: "stat h fs path (''..'' # listed_files opts path raw) = (evs, Inr fl)"
  from sorted_names [OF st, of "fileSort h"]
  show "''..'' \<in> set (map name (array_sort (fileSort h) fl))" by auto
next
  fix evs fl L
  assume st: "stat h fs path (''..'' # listed_files opts path raw) = (evs, Inr fl)"
    and acc: "accepts_type h (req_accept req) mediaTypes = Some ''text/html''"
    and r: "Render L \<in> set (readdir_callback h fs opts req originalDir True path raw)"
  from st have st': "stat h fs path
      (if True then ''..'' # listed_files opts path raw else listed_files opts path raw)
      = (evs, Inr fl)"
    by simp
  from r show "fileList L = array_sort (fileSort h) fl"
    unfolding readdir_callback_html [OF acc] by (rule serveIndex_html_render [OF st'])
qed

text \<open>
  With \<^verbatim>\<open>hidden\<close> set, the plain listing of \<^verbatim>\<open>/docs/\<close> shows \<^verbatim>\<open>.hidden\<close> and no
  \<^verbatim>\<open>..\<close>, and the parent directory is not looked up.
\<close>

theorem C10_parent_link_witness:
  "readdir_callback posix_host demo_fs (default_options\<lparr>hidden := True\<rparr>)
       (request_for ''GET'' ''/docs/'' (Some ''text/plain'')) ''/docs/'' True ''/srv/www/docs/''
       [''b.txt'', ''.hidden'', ''A'', ''gone.txt'']
     = [FsStat ''/srv/www/docs/.hidden'', FsStat ''/srv/www/docs/A'', FsStat ''/srv/www/docs/b.txt'',
        FsStat ''/srv/www/docs/gone.txt'',
        send ''text/plain'' ''A\<newline>.hidden\<newline>b.txt\<newline>gone.txt\<newline>'']
   \<and> ''..'' \<notin> set [''A'', ''.hidden'', ''b.txt'', ''gone.txt'']"
proof -
  have no: "''..'' \<notin> set [''b.txt'', ''.hidden'', ''A'', ''gone.txt'']" by simp
  have st: "stat posix_host demo_fs ''/srv/www/docs/''
        (listed_files (default_options\<lparr>hidden := True\<rparr>) ''/srv/www/docs/''
           [''b.txt'', ''.hidden'', ''A'', ''gone.txt''])
      = ([FsStat ''/srv/www/docs/.hidden'', FsStat ''/srv/www/docs/A'', FsStat ''/srv/www/docs/b.txt'',
          FsStat ''/srv/www/docs/gone.txt''],
         Inr [\<lparr>name = ''.hidden'', stat_of = Some file_stats\<rparr>,
              \<lparr>name = ''A'', stat_of = Some dir_stats\<rparr>,
              \<lparr>name = ''b.txt'', stat_of = Some file_stats\<rparr>,
              \<lparr>name = ''gone.txt'', stat_of = None\<rparr>])"
    by code_simp
  have acc: "accepts_type posix_host
        (req_accept (request_for ''GET'' ''/docs/'' (Some ''text/plain''))) mediaTypes
      = Some ''text/plain''"
    by code_simp
  have v: "map name (array_sort (fileSort posix_host)
        [\<lparr>name = ''.hidden'', stat_of = Some file_stats\<rparr>,
         \<lparr>name = ''A'', stat_of = Some dir_stats\<rparr>,
         \<lparr>name = ''b.txt'', stat_of = Some file_stats\<rparr>,
         \<lparr>name = ''gone.txt'', stat_of = None\<rparr>]) = [''A'', ''.hidden'', ''b.txt'', ''gone.txt'']"
    by code_simp
  from C10_parent_link [OF no, where h = posix_host and fs = demo_fs
      and opts = "default_options\<lparr>hidden := True\<rparr>"
      and path = "''/srv/www/docs/''"
      and req = "request_for ''GET'' ''/docs/'' (Some ''text/plain'')"
      and originalDir = "''/docs/''"] st acc
  have "readdir_callback posix_host demo_fs (default_options\<lparr>hidden := True\<rparr>)
       (request_for ''GET'' ''/docs/'' (Some ''text/plain'')) ''/docs/'' True ''/srv/www/docs/''
       [''b.txt'', ''.hidden'', ''A'', ''gone.txt'']
     = [FsStat ''/srv/www/docs/.hidden'', FsStat ''/srv/www/docs/A'', FsStat ''/srv/www/docs/b.txt'',
        FsStat ''/srv/www/docs/gone.txt'']
       @ [send ''text/plain'' (array_join [CHR 0x0A] (map name (array_sort (fileSort posix_host)
        [\<lparr>name = ''.hidden'', stat_of = Some file_stats\<rparr>,
         \<lparr>name = ''A'', stat_of = Some dir_stats\<rparr>,
         \<lparr>name = ''b.txt'', stat_of = Some file_stats\<rparr>,
         \<lparr>name = ''gone.txt'', stat_of = None\<rparr>])) @ [CHR 0x0A])]
      \<and> ''..'' \<notin> set (map name (array_sort (fileSort posix_host)
        [\<lparr>name = ''.hidden'', stat_of = Some file_stats\<rparr>,
         \<lparr>name = ''A'', stat_of = Some dir_stats\<rparr>,
         \<lparr>name = ''b.txt'', stat_of = Some file_stats\<rparr>,
         \<lparr>name = ''gone.txt'', stat_of = None\<rparr>]))"
    by blast
  then show ?thesis by (simp add: v)
qed

section \<open>Content negotiation\<close>

text \<open>
  When \<^verbatim>\<open>accepts(req).type(mediaTypes)\<close> finds no offered type acceptable, the listing
  ends in \<^verbatim>\<open>next\<close> with the error 406: no entry is looked up and no renderer runs.
  Which type the package prefers among several acceptable ones is its own matter; the
  handler offers the types in the order of \<^verbatim>\<open>mediaTypes\<close> and runs the renderer of
  the type it gets back.
\<close>

lemma negotiation_not_acceptable:
  "accepts_type h (req_accept req) mediaTypes = None \<Longrightarrow>
     readdir_callback h fs opts req originalDir up path raw = [Next (Some (HttpError 406))]"
  by (simp add: readdir_callback_def Let_def)

lemma negotiation_dispatch:
  "accepts_type h (req_accept req) mediaTypes = Some type \<Longrightarrow> type \<in> set mediaTypes \<Longrightarrow>
     readdir_callback h fs opts req originalDir up path raw =
       (if type = ''text/html'' then
          serveIndex_html h fs (listed_files opts path raw) originalDir up (icons opts) path
            (or_default (view opts) ''tiles'')
            (case template_opt opts of
               None \<Rightarrow> TemplatePath (defaultTemplate h)
             | Some (TemplatePath t) \<Rightarrow> TemplatePath (if t = [] then defaultTemplate h else t)
             | Some (TemplateFn f) \<Rightarrow> TemplateFn f)
            (or_default (stylesheet opts) (defaultStylesheet h))
        else if type = ''application/json'' then
          serveIndex_json h fs (listed_files opts path raw) path
        else serveIndex_plain h fs (listed_files opts path raw) path)"
  by (auto simp add: readdir_callback_html readdir_callback_json readdir_callback_plain
      mediaTypes_def)

end
